theory Spec2Isabelle
  imports Main
begin

section \<open>Block planning: \<open>slice_blocks\<close> (downloader.py, lines 27-51)\<close>

text \<open>
  Python integers are unbounded, so they are \<open>int\<close>. Python's \<open>//\<close> and \<open>%\<close> are floor
  division and the remainder with the sign of the divisor, which is what \<open>div\<close> and
  \<open>mod\<close> are on \<open>int\<close>. An optional integer (\<open>int | None\<close>) is an \<open>int option\<close>.
  Every way the function can raise is a value of \<open>py_error\<close>.
\<close>

datatype py_error = AssertionError | ValueError | IndexError

text \<open>
  \<open>range(start, stop, step)\<close> for a step that is not zero: the values
  \<open>start, start + step, ...\<close> before \<open>stop\<close> (after it, for a negative step).
  \<open>range\<close> raises ValueError for a zero step; \<open>slice_blocks\<close> below checks that
  before it calls \<open>py_range\<close>.
\<close>

function py_range :: "int \<Rightarrow> int \<Rightarrow> int \<Rightarrow> int list" where
  "py_range start stop step =
     (if 0 < step then (if start < stop then start # py_range (start + step) stop step else [])
      else if step < 0 then (if stop < start then start # py_range (start + step) stop step else [])
      else [])"
  by pat_completeness auto
termination
  by (relation "measure (\<lambda>(start, stop, step).
        nat (if 0 < step then stop - start else start - stop))") auto

declare py_range.simps [simp del]

type_synonym block = "int \<times> int option"

text \<open>
  \<open>offset_list[-1] = v\<close>: assignment to the last element, IndexError on an empty list.
\<close>

definition set_last :: "'a list \<Rightarrow> 'a \<Rightarrow> py_error + 'a list" where
  "set_last xs v = (if xs = [] then Inl IndexError else Inr (xs[length xs - 1 := v]))"

definition slice_blocks :: "int \<Rightarrow> int option \<Rightarrow> int option \<Rightarrow> py_error + block list" where
  "slice_blocks start total_size block_size =
     (case total_size of
        None \<Rightarrow> Inr [(0, None)]
      | Some tsize \<Rightarrow>
         (case block_size of
            None \<Rightarrow> Inr [(0, Some (tsize - 1))]
          | Some bsize \<Rightarrow>
              if \<not> start \<le> tsize then Inl AssertionError
              else if bsize = 0 then Inl ValueError
              else
                let offset_list = map (\<lambda>i. (i, Some bsize)) (py_range start tsize bsize)
                in if (tsize - start) mod bsize \<noteq> 0
                   then set_last offset_list
                          (start + (tsize - start) div bsize * bsize,
                           Some (tsize - start - (tsize - start) div bsize * bsize))
                   else Inr offset_list))"

text \<open>
  The bytes a block stands for. The docstring of \<open>slice_blocks\<close> gives the format of a
  block as \<open>(start, size)\<close>: the block \<open>(s, n)\<close> is the \<open>n\<close> bytes at the offsets
  \<open>s, ..., s + n - 1\<close>. A block of unknown size is read to the end of the stream, so it
  has no last offset here.
\<close>

fun block_bytes :: "block \<Rightarrow> int set" where
  "block_bytes (s, Some n) = {s ..< s + n}"
| "block_bytes (s, None) = {s ..}"

text \<open>
  A plan is a chain from \<open>a\<close> to \<open>e\<close> when its first block starts at \<open>a\<close>, every block
  has a known, positive size, every block starts where the one before it ends, and the
  last block ends at \<open>e\<close>.
\<close>

fun chain :: "int \<Rightarrow> block list \<Rightarrow> int \<Rightarrow> bool" where
  "chain a [] e = (a = e)"
| "chain a ((s, Some n) # bs) e = (s = a \<and> 0 < n \<and> chain (a + n) bs e)"
| "chain a ((s, None) # bs) e = False"

section \<open>Data of the downloader (downloader.py)\<close>

text \<open>
  A \<open>pathlib.Path\<close> is built by the source in two ways only: \<open>Path(s)\<close> from a string
  and \<open>p.joinpath(name)\<close>. A path is kept as that construction. \<open>str(p)\<close> renders it with
  the separator \<open>/\<close>; the normalisation that pathlib adds (a \<open>name\<close> that is itself absolute,
  repeated separators) is not modelled.
\<close>

datatype path = Path string | Joinpath path string

fun str_path :: "path \<Rightarrow> string" where
  "str_path (Path s) = s"
| "str_path (Joinpath p name) = str_path p @ ''/'' @ name"

text \<open>
  \<open>VideoUrlMeta\<close> and \<open>AudioUrlMeta\<close> are dictionaries declared in \<open>yutto._typing\<close>; the
  records have the keys that downloader.py reads.
\<close>

record video_url_meta =
  v_url :: string
  v_mirrors :: "string list"
  v_codec :: string
  v_width :: int
  v_height :: int
  v_quality :: int

record audio_url_meta =
  a_url :: string
  a_mirrors :: "string list"
  a_codec :: string
  a_quality :: int

text \<open>
  \<open>DownloaderOptions\<close>: the keys read by \<open>download_video_and_audio\<close>,
  \<open>merge_video_and_audio\<close> and \<open>start_downloader\<close>. The quality and download-codec
  preferences are read only by the stream selector, whose result is an input below.
  The dictionary is shared with the caller and \<open>merge_video_and_audio\<close> assigns to two of
  its keys, so every function that can change it returns it.
\<close>

record downloader_options =
  require_video :: bool
  require_audio :: bool
  video_save_codec :: string
  audio_save_codec :: string
  output_format :: string
  output_format_audio_only :: string
  overwrite :: bool
  block_size :: "int option"
  num_workers :: int

record subtitle_data =
  sub_lines :: "string list"
  sub_lang :: string

record danmaku_data =
  dm_data :: "string list"
  dm_save_type :: string

text \<open>
  \<open>EpisodeData\<close>. The lists \<open>videos\<close> and \<open>audios\<close> are read by the selector and by the
  two logging functions only, so they are left out; the metadata payload is opaque.
\<close>

record episode_data =
  subtitles :: "subtitle_data list"
  danmaku :: danmaku_data
  metadata :: "string option"
  output_dir :: string
  tmp_dir :: string
  filename :: string

text \<open>
  What the collaborators outside downloader.py answer during one job: the streams chosen
  by \<open>select_video\<close> and \<open>select_audio\<close>, whether the output file exists when
  \<open>output_path.exists()\<close> is asked, the \<open>written_size\<close> of each opened buffer, the
  size \<open>Fetcher.get_size\<close> reports for each stream (\<open>None\<close> when unknown) and
  \<open>os.cpu_count()\<close>.
\<close>

record world =
  selected_video :: "video_url_meta option"
  selected_audio :: "audio_url_meta option"
  output_exists :: bool
  video_written_size :: int
  video_size :: "int option"
  audio_written_size :: int
  audio_size :: "int option"
  cpu_count :: "nat option"

text \<open>
  Every call on a collaborator is an event of the trace, in program order; \<open>Exists\<close>
  is the query \<open>output_path.exists()\<close>, whose answer is in the \<open>world\<close>. Calls of
  \<open>Logger\<close> and of the progress bar only report and are not recorded. A \<open>fetch\<close> is one
  call of \<open>Fetcher.download_file_with_offset\<close> (url, mirrors, buffer, offset, size);
  \<open>Gather\<close> holds \<open>coroutines_list\<close>, the fetches of each stream that
  \<open>asyncio.gather\<close> runs concurrently (the order in which \<open>xmerge\<close> submits them is not
  recorded).
\<close>

datatype fetch = DownloadFile string "string list" path int "int option"

datatype event =
    Mkdir path
  | WriteSubtitle "string list" path string
  | WriteDanmaku danmaku_data string int int
  | WriteMetadata string path
  | Exists path
  | Unlink path
  | SetSemaphore int
  | OpenBuffer path bool
  | GetSize string
  | Gather "fetch list list"
  | CloseBuffer path
  | FFmpegExec "string list"

text \<open>The events that send a request over the network, and the muxer's invocations.\<close>

fun is_network :: "event \<Rightarrow> bool" where
  "is_network (GetSize u) = True"
| "is_network (Gather fs) = (concat fs \<noteq> [])"
| "is_network e = False"

fun is_ffmpeg :: "event \<Rightarrow> bool" where
  "is_ffmpeg (FFmpegExec args) = True"
| "is_ffmpeg e = False"

fun is_ancillary :: "event \<Rightarrow> bool" where
  "is_ancillary (WriteSubtitle ls p l) = True"
| "is_ancillary (WriteDanmaku d p h w) = True"
| "is_ancillary (WriteMetadata m p) = True"
| "is_ancillary e = False"

fun ffmpeg_args :: "event list \<Rightarrow> string list list" where
  "ffmpeg_args [] = []"
| "ffmpeg_args (FFmpegExec args # es) = args # ffmpeg_args es"
| "ffmpeg_args (e # es) = ffmpeg_args es"

section \<open>\<open>str\<close> of \<open>os.cpu_count()\<close>\<close>

definition digit_char :: "nat \<Rightarrow> char" where
  "digit_char d = ''0123456789'' ! d"

function str_nat :: "nat \<Rightarrow> string" where
  "str_nat n = (if n < 10 then [digit_char n] else str_nat (n div 10) @ [digit_char (n mod 10)])"
  by pat_completeness auto
termination
  by (relation "measure id") auto

declare str_nat.simps [simp del]

definition str_cpu_count :: "nat option \<Rightarrow> string" where
  "str_cpu_count c = (case c of None \<Rightarrow> ''None'' | Some n \<Rightarrow> str_nat n)"

section \<open>\<open>download_video_and_audio\<close> (lines 90-133)\<close>

text \<open>
  The fetches of one stream: one per block of \<open>slice_blocks(buf.written_size, size,
  options["block_size"])\<close>. An exception of \<open>slice_blocks\<close> leaves the function.
\<close>

definition stream_fetches ::
  "string \<Rightarrow> string list \<Rightarrow> path \<Rightarrow> int \<Rightarrow> int option \<Rightarrow> downloader_options
     \<Rightarrow> py_error + fetch list" where
  "stream_fetches url mirrors buf written total_size options =
     (case slice_blocks written total_size (block_size options) of
        Inl e \<Rightarrow> Inl e
      | Inr blocks \<Rightarrow>
          Inr (map (\<lambda>(offset, bsize). DownloadFile url mirrors buf offset bsize) blocks))"

definition download_video_and_audio ::
  "world \<Rightarrow> video_url_meta option \<Rightarrow> path \<Rightarrow> audio_url_meta option \<Rightarrow> path
     \<Rightarrow> downloader_options \<Rightarrow> event list \<times> (py_error + unit)" where
  "download_video_and_audio w video video_path audio audio_path options =
     (let ev0 = [SetSemaphore (num_workers options)];
          vev = (case video of None \<Rightarrow> []
                 | Some v \<Rightarrow> [OpenBuffer video_path (overwrite options), GetSize (v_url v)]);
          vres = (case video of None \<Rightarrow> Inr []
                  | Some v \<Rightarrow>
                     (case stream_fetches (v_url v) (v_mirrors v) video_path
                             (video_written_size w) (video_size w) options of
                        Inl e \<Rightarrow> Inl e | Inr fs \<Rightarrow> Inr [fs]))
      in case vres of
           Inl e \<Rightarrow> (ev0 @ vev, Inl e)
         | Inr vlist \<Rightarrow>
            (let aev = (case audio of None \<Rightarrow> []
                        | Some a \<Rightarrow> [OpenBuffer audio_path (overwrite options), GetSize (a_url a)]);
                 ares = (case audio of None \<Rightarrow> Inr []
                         | Some a \<Rightarrow>
                            (case stream_fetches (a_url a) (a_mirrors a) audio_path
                                    (audio_written_size w) (audio_size w) options of
                               Inl e \<Rightarrow> Inl e | Inr fs \<Rightarrow> Inr [fs]))
             in case ares of
                  Inl e \<Rightarrow> (ev0 @ vev @ aev, Inl e)
                | Inr alist \<Rightarrow>
                    (ev0 @ vev @ aev @ [Gather (vlist @ alist)]
                       @ (case video of None \<Rightarrow> [] | Some v \<Rightarrow> [CloseBuffer video_path])
                       @ (case audio of None \<Rightarrow> [] | Some a \<Rightarrow> [CloseBuffer audio_path]),
                     Inr ())))"

section \<open>\<open>merge_video_and_audio\<close> (lines 136-181)\<close>

text \<open>
  The function returns nothing; the model returns its events and the options dictionary
  as the function leaves it. \<open>functools.reduce(lambda prev, cur: prev + cur, args_list)\<close>
  on the eight-element list is the left fold of \<open>@\<close> from its first element.
\<close>

definition merge_vtag :: "video_url_meta option \<Rightarrow> downloader_options \<Rightarrow> string option" where
  "merge_vtag video options =
     (if video_save_codec options = ''hevc'' \<or>
         (video_save_codec options = ''copy'' \<and>
          (case video of None \<Rightarrow> False | Some v \<Rightarrow> v_codec v = ''hevc''))
      then Some ''hvc1'' else None)"

definition merge_options ::
  "video_url_meta option \<Rightarrow> audio_url_meta option \<Rightarrow> downloader_options \<Rightarrow> downloader_options" where
  "merge_options video audio options =
     (let options1 = (case video of None \<Rightarrow> options
                      | Some v \<Rightarrow> if v_codec v = video_save_codec options
                                  then options\<lparr>video_save_codec := ''copy''\<rparr> else options);
          options2 = (case audio of None \<Rightarrow> options1
                      | Some a \<Rightarrow> if a_codec a = audio_save_codec options1
                                  then options1\<lparr>audio_save_codec := ''copy''\<rparr> else options1)
      in options2)"

definition merge_video_and_audio ::
  "world \<Rightarrow> video_url_meta option \<Rightarrow> path \<Rightarrow> audio_url_meta option \<Rightarrow> path \<Rightarrow> path
     \<Rightarrow> downloader_options \<Rightarrow> event list \<times> downloader_options" where
  "merge_video_and_audio w video video_path audio audio_path output_path options =
     (let vtag = merge_vtag video options;
          options' = merge_options video audio options;
          args_list =
            [(case video of None \<Rightarrow> [] | Some v \<Rightarrow> [''-i'', str_path video_path]),
             (case audio of None \<Rightarrow> [] | Some a \<Rightarrow> [''-i'', str_path audio_path]),
             (case video of None \<Rightarrow> [] | Some v \<Rightarrow> [''-vcodec'', video_save_codec options']),
             (case audio of None \<Rightarrow> [] | Some a \<Rightarrow> [''-acodec'', audio_save_codec options']),
             [''-strict'', ''unofficial''],
             (case vtag of None \<Rightarrow> [] | Some t \<Rightarrow> [''-tag:v'', t]),
             [''-threads'', str_cpu_count (cpu_count w)],
             [''-y'', str_path output_path]]
      in ([FFmpegExec (foldl (@) (hd args_list) (tl args_list))]
            @ (case video of None \<Rightarrow> [] | Some v \<Rightarrow> [Unlink video_path])
            @ (case audio of None \<Rightarrow> [] | Some a \<Rightarrow> [Unlink audio_path]),
          options'))"

section \<open>\<open>start_downloader\<close> (lines 184-280)\<close>

text \<open>
  The function returns \<open>None\<close> at three places; the model names them as the
  specification's state machine does: \<open>Skipped\<close> (line 264), \<open>NothingToDo\<close> (line 271)
  and \<open>Done\<close> (the end of the function). An exception leaves it as \<open>Failed\<close>.
\<close>

datatype outcome = Skipped | NothingToDo | Done | Failed py_error

record run =
  trace :: "event list"
  result :: outcome
  options_after :: downloader_options

definition will_download_video :: "world \<Rightarrow> downloader_options \<Rightarrow> bool" where
  "will_download_video w options = (selected_video w \<noteq> None \<and> require_video options)"

definition will_download_audio :: "world \<Rightarrow> downloader_options \<Rightarrow> bool" where
  "will_download_audio w options = (selected_audio w \<noteq> None \<and> require_audio options)"

definition video_path_of :: "episode_data \<Rightarrow> path" where
  "video_path_of ep = Joinpath (Path (tmp_dir ep)) (filename ep @ ''_video.m4s'')"

definition audio_path_of :: "episode_data \<Rightarrow> path" where
  "audio_path_of ep = Joinpath (Path (tmp_dir ep)) (filename ep @ ''_audio.m4s'')"

text \<open>Lines 221-233: the suffix of the output file.\<close>

definition output_format_of :: "world \<Rightarrow> downloader_options \<Rightarrow> string" where
  "output_format_of w options =
     (let audio_is_flac = (case selected_audio w of None \<Rightarrow> False | Some a \<Rightarrow> a_codec a = ''fLaC'')
      in if \<not> will_download_video w options then
           (if output_format_audio_only options \<noteq> ''infer''
              then ''.'' @ output_format_audio_only options
            else if will_download_audio w options \<and> audio_is_flac then ''.flac''
            else ''.aac'')
         else
           (if output_format options \<noteq> ''infer'' then ''.'' @ output_format options
            else if will_download_audio w options \<and> audio_is_flac then ''.mkv''
            else ''.mp4''))"

definition output_path_of :: "world \<Rightarrow> episode_data \<Rightarrow> downloader_options \<Rightarrow> path" where
  "output_path_of w ep options =
     Joinpath (Path (output_dir ep)) (filename ep @ output_format_of w options)"

text \<open>Lines 237-259: subtitles, danmaku and the media description file.\<close>

definition ancillary_writes :: "world \<Rightarrow> episode_data \<Rightarrow> path \<Rightarrow> event list" where
  "ancillary_writes w ep output_path =
     map (\<lambda>s. WriteSubtitle (sub_lines s) output_path (sub_lang s)) (subtitles ep)
     @ (if dm_data (danmaku ep) \<noteq> []
        then [WriteDanmaku (danmaku ep) (str_path output_path)
                (case selected_video w of None \<Rightarrow> 1080 | Some v \<Rightarrow> v_height v)
                (case selected_video w of None \<Rightarrow> 1920 | Some v \<Rightarrow> v_width v)]
        else [])
     @ (case metadata ep of None \<Rightarrow> [] | Some m \<Rightarrow> [WriteMetadata m output_path])"

definition start_downloader :: "world \<Rightarrow> episode_data \<Rightarrow> downloader_options \<Rightarrow> run" where
  "start_downloader w ep options =
     (let video_path = video_path_of ep;
          audio_path = audio_path_of ep;
          output_path = output_path_of w ep options;
          ev1 = [Mkdir (Path (tmp_dir ep)), Mkdir (Path (output_dir ep))]
                  @ ancillary_writes w ep output_path @ [Exists output_path]
      in if output_exists w \<and> \<not> overwrite options
         then \<lparr>trace = ev1, result = Skipped, options_after = options\<rparr>
         else
          (let ev2 = ev1 @ (if output_exists w then [Unlink output_path] else [])
           in if \<not> (will_download_audio w options \<or> will_download_video w options)
              then \<lparr>trace = ev2, result = NothingToDo, options_after = options\<rparr>
              else
               (let video = (if will_download_video w options then selected_video w else None);
                    audio = (if will_download_audio w options then selected_audio w else None);
                    (ev3, r) = download_video_and_audio w video video_path audio audio_path options
                in case r of
                     Inl e \<Rightarrow> \<lparr>trace = ev2 @ ev3, result = Failed e, options_after = options\<rparr>
                   | Inr u \<Rightarrow>
                      (let (ev4, options') =
                             merge_video_and_audio w video video_path audio audio_path
                               output_path options
                       in \<lparr>trace = ev2 @ ev3 @ ev4, result = Done, options_after = options'\<rparr>))))"

section \<open>Properties of \<open>slice_blocks\<close>\<close>

subsection \<open>Chains of blocks\<close>

lemma chain_le: "chain a bs e \<Longrightarrow> a \<le> e"
proof (induction bs arbitrary: a)
  case Nil
  then show ?case by simp
next
  case (Cons blk bs)
  obtain s sz where blk: "blk = (s, sz)" by (cases blk)
  show ?case
  proof (cases sz)
    case None
    with Cons.prems blk show ?thesis by simp
  next
    case (Some n)
    with Cons.prems blk have "0 < n" and "chain (a + n) bs e" by simp_all
    with Cons.IH [of "a + n"] show ?thesis by simp
  qed
qed

lemma chain_union: "chain a bs e \<Longrightarrow> (\<Union>blk\<in>set bs. block_bytes blk) = {a ..< e}"
proof (induction bs arbitrary: a)
  case Nil
  then show ?case by simp
next
  case (Cons blk bs)
  obtain s sz where blk: "blk = (s, sz)" by (cases blk)
  show ?case
  proof (cases sz)
    case None
    with Cons.prems blk show ?thesis by simp
  next
    case (Some n)
    with Cons.prems blk have s: "s = a" and n: "0 < n" and rest: "chain (a + n) bs e"
      by simp_all
    from chain_le [OF rest] have le: "a + n \<le> e" .
    have "(\<Union>blk\<in>set bs. block_bytes blk) = {a + n ..< e}"
      using Cons.IH [OF rest] .
    moreover have "{a ..< a + n} \<union> {a + n ..< e} = {a ..< e}"
      using n le by auto
    ultimately show ?thesis using blk Some s by simp
  qed
qed

lemma chain_member_subset:
  assumes "chain a bs e" and "blk \<in> set bs"
  shows "block_bytes blk \<subseteq> {a ..< e}"
  using chain_union [OF assms(1)] assms(2) by blast

lemma chain_disjoint:
  "chain a bs e \<Longrightarrow> i < j \<Longrightarrow> j < length bs \<Longrightarrow> block_bytes (bs ! i) \<inter> block_bytes (bs ! j) = {}"
proof (induction bs arbitrary: a i j)
  case Nil
  then show ?case by simp
next
  case (Cons blk bs)
  obtain s sz where blk: "blk = (s, sz)" by (cases blk)
  show ?case
  proof (cases sz)
    case None
    with Cons.prems blk show ?thesis by simp
  next
    case (Some n)
    with Cons.prems blk have s: "s = a" and n: "0 < n" and rest: "chain (a + n) bs e"
      by simp_all
    from Cons.prems obtain j' where j: "j = Suc j'" and j': "j' < length bs"
      by (cases j) auto
    show ?thesis
    proof (cases i)
      case 0
      have "block_bytes (bs ! j') \<subseteq> {a + n ..< e}"
        using chain_member_subset [OF rest] j' by simp
      then show ?thesis using 0 j blk Some s by auto
    next
      case (Suc i')
      with Cons.prems j have "i' < j'" by simp
      from Cons.IH [OF rest this j'] show ?thesis using Suc j by simp
    qed
  qed
qed

lemma chain_contiguous:
  "chain a bs e \<Longrightarrow> Suc i < length bs \<Longrightarrow>
     \<exists>n. snd (bs ! i) = Some n \<and> 0 < n \<and> fst (bs ! Suc i) = fst (bs ! i) + n"
proof (induction bs arbitrary: a i)
  case Nil
  then show ?case by simp
next
  case (Cons blk bs)
  obtain s sz where blk: "blk = (s, sz)" by (cases blk)
  show ?case
  proof (cases sz)
    case None
    with Cons.prems blk show ?thesis by simp
  next
    case (Some n)
    with Cons.prems blk have s: "s = a" and n: "0 < n" and rest: "chain (a + n) bs e"
      by simp_all
    show ?thesis
    proof (cases i)
      case 0
      from Cons.prems 0 obtain b2 bs' where bs: "bs = b2 # bs'" by (cases bs) auto
      obtain s2 sz2 where b2: "b2 = (s2, sz2)" by (cases b2)
      from rest bs b2 have "s2 = a + n" by (cases sz2) simp_all
      then show ?thesis using 0 blk Some s n bs b2 by simp
    next
      case (Suc i')
      with Cons.prems have "Suc i' < length bs" by simp
      from Cons.IH [OF rest this] show ?thesis using Suc by simp
    qed
  qed
qed

lemma chain_first: "chain a bs e \<Longrightarrow> bs \<noteq> [] \<Longrightarrow> fst (hd bs) = a"
  by (cases bs; cases "snd (hd bs)") (auto elim: chain.elims)



lemma py_range_pos:
  "0 < b \<Longrightarrow> py_range r t b = (if r < t then r # py_range (r + b) t b else [])"
  by (subst py_range.simps) simp

lemma chain_py_range_exact:
  "0 < b \<Longrightarrow> r \<le> t \<Longrightarrow> (t - r) mod b = 0 \<Longrightarrow>
     chain r (map (\<lambda>i. (i, Some b)) (py_range r t b)) t"
proof (induction r t b rule: py_range.induct)
  case (1 r t b)
  show ?case
  proof (cases "r < t")
    case False
    with "1.prems" show ?thesis by (simp add: py_range_pos)
  next
    case True
    from "1.prems" have dvd: "b dvd (t - r)" by (simp add: mod_eq_0_iff_dvd)
    with True "1.prems" have le: "r + b \<le> t"
      using zdvd_imp_le [of b "t - r"] by simp
    have "t - (r + b) = t - r - b" by simp
    then have "(t - (r + b)) mod b = (t - r) mod b"
      by (simp only: minus_mod_self2)
    with "1.prems" have "(t - (r + b)) mod b = 0" by simp
    with "1.IH"(1) [OF "1.prems"(1) True "1.prems"(1) le]
    have "chain (r + b) (map (\<lambda>i. (i, Some b)) (py_range (r + b) t b)) t" .
    with True "1.prems" show ?thesis by (simp add: py_range_pos [of b r t])
  qed
qed

lemma chain_py_range_rem:
  "0 < b \<Longrightarrow> r < t \<Longrightarrow> (t - r) mod b \<noteq> 0 \<Longrightarrow>
     py_range r t b \<noteq> [] \<and>
     chain r ((map (\<lambda>i. (i, Some b)) (py_range r t b))
                [length (py_range r t b) - 1 := (t - (t - r) mod b, Some ((t - r) mod b))]) t"
proof (induction r t b rule: py_range.induct)
  case (1 r t b)
  let ?m = "(t - r) mod b"
  have m_pos: "0 < ?m" using "1.prems" by (simp add: less_le)
  show ?case
  proof (cases "r + b < t")
    case False
    with "1.prems" have eq: "py_range r t b = [r]"
      by (simp add: py_range_pos [of b r t] py_range_pos [of b "r + b" t])
    have "r + b \<noteq> t" using "1.prems" by auto
    with False "1.prems" have "t - r < b" by simp
    with "1.prems" have "?m = t - r" by simp
    with eq m_pos show ?thesis by simp
  next
    case True
    have "t - (r + b) = t - r - b" by simp
    then have m: "(t - (r + b)) mod b = ?m"
      by (simp only: minus_mod_self2)
    from "1.IH"(1) [OF "1.prems"(1,2,1) True] m "1.prems"
    have ne: "py_range (r + b) t b \<noteq> []"
      and ch: "chain (r + b) ((map (\<lambda>i. (i, Some b)) (py_range (r + b) t b))
                [length (py_range (r + b) t b) - 1 := (t - ?m, Some ?m)]) t"
      by simp_all
    have eq: "py_range r t b = r # py_range (r + b) t b"
      using "1.prems" by (simp add: py_range_pos [of b r t])
    from ne obtain k where k: "length (py_range (r + b) t b) = Suc k"
      by (cases "py_range (r + b) t b") auto
    show ?thesis using ch "1.prems" by (simp add: eq k)
  qed
qed


lemma sizes_before_last:
  "Suc i < length xs \<Longrightarrow>
     snd ((map (\<lambda>i. (i, Some b)) xs)[length xs - 1 := v] ! i) = Some b"
  by simp

lemma last_set_last: "xs \<noteq> [] \<Longrightarrow> last (xs[length xs - 1 := v]) = v"
  by (simp add: last_conv_nth)

lemma slice_blocks_exact:
  assumes "0 < b" and "r \<le> t" and "(t - r) mod b = 0"
  shows "slice_blocks r (Some t) (Some b) = Inr (map (\<lambda>i. (i, Some b)) (py_range r t b))"
  using assms by (simp add: slice_blocks_def)

lemma slice_blocks_rem:
  assumes "0 < b" and "r \<le> t" and "(t - r) mod b \<noteq> 0"
  shows "slice_blocks r (Some t) (Some b) =
           Inr ((map (\<lambda>i. (i, Some b)) (py_range r t b))
                  [length (py_range r t b) - 1 := (t - (t - r) mod b, Some ((t - r) mod b))])"
proof -
  from assms have lt: "r < t" by (cases "r = t") auto
  from chain_py_range_rem [OF assms(1) lt assms(3)] have ne: "py_range r t b \<noteq> []" by simp
  have m: "t - r - (t - r) div b * b = (t - r) mod b"
    by (simp add: minus_div_mult_eq_mod)
  then have s: "r + (t - r) div b * b = t - (t - r) mod b" by linarith
  show ?thesis using assms ne by (simp add: slice_blocks_def set_last_def Let_def m s)
qed

text \<open>
  Claim C1. For a resume offset \<open>r\<close> and a total size \<open>t\<close> with \<open>0 \<le> r \<le> t\<close> and a block
  size \<open>b > 0\<close>, \<open>slice_blocks r t b\<close> returns a plan (it does not raise) whose blocks are
  ordered and contiguous (the first starts at \<open>r\<close>, each one starts where the one before
  it ends, all have a positive size, the last ends at \<open>t\<close>), pairwise disjoint, and whose
  union is exactly the byte range \<open>[r, t)\<close>; every block but the last has size \<open>b\<close>, the
  last has size \<open>(t - r) mod b\<close> when that is not zero and \<open>b\<close> otherwise; the plan is
  empty exactly when \<open>r = t\<close>.
\<close>

theorem slice_blocks_plan:
  assumes "0 \<le> r" and "r \<le> t" and "0 < b"
  shows "\<exists>bs. slice_blocks r (Some t) (Some b) = Inr bs
           \<and> chain r bs t
           \<and> (\<Union>blk\<in>set bs. block_bytes blk) = {r ..< t}
           \<and> (\<forall>i j. i < j \<and> j < length bs \<longrightarrow> block_bytes (bs ! i) \<inter> block_bytes (bs ! j) = {})
           \<and> (\<forall>i. Suc i < length bs \<longrightarrow>
                  snd (bs ! i) = Some b \<and> fst (bs ! Suc i) = fst (bs ! i) + b)
           \<and> ((bs = []) = (r = t))
           \<and> (bs \<noteq> [] \<longrightarrow> fst (hd bs) = r
                  \<and> snd (last bs) = Some (if (t - r) mod b \<noteq> 0 then (t - r) mod b else b))"
proof -
  define xs where "xs = map (\<lambda>i. (i, Some b)) (py_range r t b)"
  define m where "m = (t - r) mod b"
  define bs where "bs = (if m \<noteq> 0 then xs[length xs - 1 := (t - m, Some m)] else xs)"
  have res: "slice_blocks r (Some t) (Some b) = Inr bs"
    using slice_blocks_exact [OF assms(3,2)] slice_blocks_rem [OF assms(3,2)]
    by (simp add: bs_def xs_def m_def)
  have ch: "chain r bs t"
  proof (cases "m = 0")
    case True
    then show ?thesis
      using chain_py_range_exact [OF assms(3,2)] by (simp add: bs_def xs_def m_def)
  next
    case False
    with assms have "r < t" by (cases "r = t") (auto simp: m_def)
    from chain_py_range_rem [OF assms(3) this] False show ?thesis
      by (simp add: bs_def xs_def m_def)
  qed
  have len: "length bs = length (py_range r t b)"
    by (simp add: bs_def xs_def)
  have sizes: "snd (bs ! i) = Some b" if "Suc i < length bs" for i
  proof -
    from that have i: "Suc i < length (py_range r t b)" by (simp add: len)
    then have "i \<noteq> length (py_range r t b) - 1" and "i < length (py_range r t b)"
      by simp_all
    then show ?thesis by (simp add: bs_def xs_def)
  qed
  have contig: "snd (bs ! i) = Some b \<and> fst (bs ! Suc i) = fst (bs ! i) + b"
    if "Suc i < length bs" for i
    using chain_contiguous [OF ch that] sizes [OF that] by auto
  have empty: "(bs = []) = (r = t)"
  proof
    assume "bs = []"
    with ch show "r = t" by simp
  next
    assume "r = t"
    then show "bs = []" using assms by (simp add: bs_def xs_def m_def py_range_pos)
  qed
  have lastsz: "snd (last bs) = Some (if m \<noteq> 0 then m else b)" if "bs \<noteq> []"
  proof (cases "m = 0")
    case True
    with that have "py_range r t b \<noteq> []" by (simp add: bs_def xs_def)
    then have "last bs = (last (py_range r t b), Some b)"
      using True by (simp add: bs_def xs_def last_map)
    with True show ?thesis by simp
  next
    case False
    with that have "xs \<noteq> []" by (simp add: bs_def)
    then have "last (xs[length xs - 1 := (t - m, Some m)]) = (t - m, Some m)"
      by (rule last_set_last)
    moreover have "bs = xs[length xs - 1 := (t - m, Some m)]"
      using False by (simp add: bs_def)
    ultimately show ?thesis using False by simp
  qed
  show ?thesis
    using res ch chain_union [OF ch] chain_disjoint [OF ch] contig empty
      chain_first [OF ch] lastsz
    unfolding m_def by (intro exI [of _ bs]) blast
qed

theorem slice_blocks_plan_witness:
  "(0::int) \<le> 0 \<and> (0::int) \<le> 25 \<and> (0::int) < 10
   \<and> slice_blocks 0 (Some 25) (Some 10) = Inr [(0, Some 10), (10, Some 10), (20, Some 5)]
   \<and> chain 0 [(0, Some 10), (10, Some 10), (20, Some 5)] 25
   \<and> (\<Union>blk\<in>set [(0, Some 10), (10, Some 10), (20, Some (5::int))]. block_bytes blk) = {0 ..< 25}"
proof -
  have e: "slice_blocks 0 (Some 25) (Some 10) = Inr [(0, Some 10), (10, Some 10), (20, Some 5)]"
    by (simp add: slice_blocks_def set_last_def py_range.simps)
  from slice_blocks_plan [of 0 25 10] e show ?thesis by auto
qed

text \<open>Without a block size the plan does not depend on the resume offset at all.\<close>

lemma slice_blocks_no_block_size: "slice_blocks r (Some t) None = Inr [(0, Some (t - 1))]"
  by (simp add: slice_blocks_def)

text \<open>
  Claim C4, as amended. For a resume offset \<open>r\<close> beyond the known total size \<open>t\<close> and
  every block size \<open>b\<close> that is given (an integer, also zero or negative),
  \<open>slice_blocks\<close> fails with the assertion's error and returns no plan. (The check
  comes after the return for a missing block size, see the counterexample.)
\<close>

theorem slice_blocks_resume_beyond_total:
  "t < r \<Longrightarrow> slice_blocks r (Some t) (Some b) = Inl AssertionError"
  by (simp add: slice_blocks_def)

theorem slice_blocks_resume_beyond_total_witness:
  "(3::int) < 5 \<and> slice_blocks 5 (Some 3) (Some 2) = Inl AssertionError"
  using slice_blocks_resume_beyond_total [of 3 5 2] by simp

text \<open>
  Claim C4 as stated fails for a missing block size: with \<open>r = 5 > t = 3\<close> and no block
  size the function returns the plan \<open>[(0, 2)]\<close> and raises nothing.
\<close>

theorem slice_blocks_resume_beyond_total_null_block_size:
  "(3::int) < 5 \<and> slice_blocks 5 (Some 3) None = Inr [(0, Some 2)]
   \<and> \<not> (\<exists>e. slice_blocks 5 (Some 3) None = Inl e)"
  by (simp add: slice_blocks_def)

text \<open>
  Claim C5. For a total size of 10 and no block size the function returns the single
  block \<open>(0, 9)\<close>. Read as \<open>(start, size)\<close>, the format the docstring gives and the one
  the blocks of the chunked branch have, it is the nine bytes \<open>0, ..., 8\<close>: the last byte
  of the file, at offset 9, is not in it. The chunked branch with one block of the
  whole size returns \<open>(0, 10)\<close>.
\<close>

theorem slice_blocks_null_block_size_misses_last_byte:
  "slice_blocks 0 (Some 10) None = Inr [(0, Some 9)]
   \<and> (\<Union>blk\<in>set [(0, Some 9)]. block_bytes blk) = {0 ..< 9}
   \<and> (9::int) \<notin> (\<Union>blk\<in>set [(0, Some 9)]. block_bytes blk)
   \<and> (9::int) \<in> {0 ..< 10}
   \<and> slice_blocks 0 (Some 10) (Some 10) = Inr [(0, Some 10)]"
  by (simp add: slice_blocks_def py_range.simps)

section \<open>Properties of \<open>merge_video_and_audio\<close>\<close>

lemma snd_merge:
  "snd (merge_video_and_audio w video vp audio ap out options) = merge_options video audio options"
  by (simp add: merge_video_and_audio_def Let_def)

lemma video_save_codec_merge_options:
  "video_save_codec (merge_options video audio options) =
     (case video of None \<Rightarrow> video_save_codec options
      | Some v \<Rightarrow> if v_codec v = video_save_codec options then ''copy''
                  else video_save_codec options)"
  by (cases video; cases audio) (simp_all add: merge_options_def Let_def)

lemma audio_save_codec_merge_options:
  "audio_save_codec (merge_options video audio options) =
     (case audio of None \<Rightarrow> audio_save_codec options
      | Some a \<Rightarrow> if a_codec a = audio_save_codec options then ''copy''
                  else audio_save_codec options)"
  by (cases video; cases audio) (simp_all add: merge_options_def Let_def)

lemma ffmpeg_args_merge:
  "ffmpeg_args (fst (merge_video_and_audio w video vp audio ap out options)) =
     [(case video of None \<Rightarrow> [] | Some v \<Rightarrow> [''-i'', str_path vp])
      @ (case audio of None \<Rightarrow> [] | Some a \<Rightarrow> [''-i'', str_path ap])
      @ (case video of None \<Rightarrow> []
         | Some v \<Rightarrow> [''-vcodec'', video_save_codec (merge_options video audio options)])
      @ (case audio of None \<Rightarrow> []
         | Some a \<Rightarrow> [''-acodec'', audio_save_codec (merge_options video audio options)])
      @ [''-strict'', ''unofficial'']
      @ (case merge_vtag video options of None \<Rightarrow> [] | Some t \<Rightarrow> [''-tag:v'', t])
      @ [''-threads'', str_cpu_count (cpu_count w)]
      @ [''-y'', str_path out]]"
  by (cases video; cases audio) (simp_all add: merge_video_and_audio_def Let_def)

lemma filter_ffmpeg_merge:
  "filter is_ffmpeg (fst (merge_video_and_audio w video vp audio ap out options)) =
     map FFmpegExec (ffmpeg_args (fst (merge_video_and_audio w video vp audio ap out options)))"
  by (cases video; cases audio) (simp_all add: merge_video_and_audio_def Let_def)

text \<open>
  Claim C8. One merge invokes the muxer exactly once, and the argument list is, in this
  order: \<open>-i\<close> and the video file when there is a video stream, \<open>-i\<close> and the audio
  file when there is an audio stream, \<open>-vcodec\<close> and the video directive when there is
  a video stream, \<open>-acodec\<close> and the audio directive when there is an audio stream,
  \<open>-strict unofficial\<close>, \<open>-tag:v\<close> and the tag when a tag was chosen, \<open>-threads\<close> and
  the processor count, \<open>-y\<close> and the output path.
\<close>

theorem merge_muxer_arguments:
  "\<exists>args. filter is_ffmpeg (fst (merge_video_and_audio w video vp audio ap out options))
            = [FFmpegExec args]
     \<and> args =
       (case video of None \<Rightarrow> [] | Some v \<Rightarrow> [''-i'', str_path vp])
       @ (case audio of None \<Rightarrow> [] | Some a \<Rightarrow> [''-i'', str_path ap])
       @ (case video of None \<Rightarrow> []
          | Some v \<Rightarrow> [''-vcodec'',
               video_save_codec (snd (merge_video_and_audio w video vp audio ap out options))])
       @ (case audio of None \<Rightarrow> []
          | Some a \<Rightarrow> [''-acodec'',
               audio_save_codec (snd (merge_video_and_audio w video vp audio ap out options))])
       @ [''-strict'', ''unofficial'']
       @ (case merge_vtag video options of None \<Rightarrow> [] | Some t \<Rightarrow> [''-tag:v'', t])
       @ [''-threads'', str_cpu_count (cpu_count w)]
       @ [''-y'', str_path out]"
  by (cases video; cases audio)
    (simp_all add: filter_ffmpeg_merge ffmpeg_args_merge snd_merge)

theorem merge_muxer_arguments_witness:
  "filter is_ffmpeg (fst (merge_video_and_audio
      \<lparr>selected_video = None, selected_audio = None, output_exists = False,
        video_written_size = 0, video_size = None, audio_written_size = 0,
        audio_size = None, cpu_count = Some 8\<rparr>
      (Some \<lparr>v_url = ''u'', v_mirrors = [], v_codec = ''avc'', v_width = 1920,
              v_height = 1080, v_quality = 80\<rparr>)
      (Path ''v.m4s'')
      (Some \<lparr>a_url = ''au'', a_mirrors = [], a_codec = ''mp4a'', a_quality = 30280\<rparr>)
      (Path ''a.m4s'') (Path ''o.mp4'')
      \<lparr>require_video = True, require_audio = True, video_save_codec = ''hevc'',
        audio_save_codec = ''mp4a'', output_format = ''infer'',
        output_format_audio_only = ''infer'', overwrite = False, block_size = Some 10,
        num_workers = 8\<rparr>))
   = [FFmpegExec [''-i'', ''v.m4s'', ''-i'', ''a.m4s'', ''-vcodec'', ''hevc'', ''-acodec'', ''copy'',
        ''-strict'', ''unofficial'', ''-tag:v'', ''hvc1'', ''-threads'', ''8'', ''-y'', ''o.mp4'']]"
  using merge_muxer_arguments [of
      "\<lparr>selected_video = None, selected_audio = None, output_exists = False,
        video_written_size = 0, video_size = None, audio_written_size = 0,
        audio_size = None, cpu_count = Some 8\<rparr>"
      "Some \<lparr>v_url = ''u'', v_mirrors = [], v_codec = ''avc'', v_width = 1920,
              v_height = 1080, v_quality = 80\<rparr>"
      "Path ''v.m4s''"
      "Some \<lparr>a_url = ''au'', a_mirrors = [], a_codec = ''mp4a'', a_quality = 30280\<rparr>"
      "Path ''a.m4s''" "Path ''o.mp4''"
      "\<lparr>require_video = True, require_audio = True, video_save_codec = ''hevc'',
        audio_save_codec = ''mp4a'', output_format = ''infer'',
        output_format_audio_only = ''infer'', overwrite = False, block_size = Some 10,
        num_workers = 8\<rparr>"]
  by (simp add: snd_merge merge_options_def merge_vtag_def str_cpu_count_def str_nat.simps
        digit_char_def)

text \<open>
  Claim C6. For each stream that is present, the directive passed to the muxer is
  \<open>copy\<close> when the stream's source codec equals the save codec requested in the options,
  and the requested save codec, unchanged, when they differ.
\<close>

theorem merge_copy_directive:
  "ffmpeg_args (fst (merge_video_and_audio w video vp audio ap out options)) =
     [(case video of None \<Rightarrow> [] | Some v \<Rightarrow> [''-i'', str_path vp])
      @ (case audio of None \<Rightarrow> [] | Some a \<Rightarrow> [''-i'', str_path ap])
      @ (case video of None \<Rightarrow> []
         | Some v \<Rightarrow> [''-vcodec'', if v_codec v = video_save_codec options then ''copy''
                                    else video_save_codec options])
      @ (case audio of None \<Rightarrow> []
         | Some a \<Rightarrow> [''-acodec'', if a_codec a = audio_save_codec options then ''copy''
                                    else audio_save_codec options])
      @ [''-strict'', ''unofficial'']
      @ (case merge_vtag video options of None \<Rightarrow> [] | Some t \<Rightarrow> [''-tag:v'', t])
      @ [''-threads'', str_cpu_count (cpu_count w)]
      @ [''-y'', str_path out]]"
  by (cases video; cases audio)
    (simp_all add: ffmpeg_args_merge video_save_codec_merge_options
       audio_save_codec_merge_options)

theorem merge_copy_directive_witness:
  "ffmpeg_args (fst (merge_video_and_audio
      \<lparr>selected_video = None, selected_audio = None, output_exists = False,
        video_written_size = 0, video_size = None, audio_written_size = 0,
        audio_size = None, cpu_count = Some 16\<rparr>
      (Some \<lparr>v_url = ''u'', v_mirrors = [], v_codec = ''avc'', v_width = 1280,
              v_height = 720, v_quality = 64\<rparr>)
      (Path ''v.m4s'')
      (Some \<lparr>a_url = ''au'', a_mirrors = [], a_codec = ''mp4a'', a_quality = 30280\<rparr>)
      (Path ''a.m4s'') (Path ''o.mp4'')
      \<lparr>require_video = True, require_audio = True, video_save_codec = ''avc'',
        audio_save_codec = ''flac'', output_format = ''infer'',
        output_format_audio_only = ''infer'', overwrite = False, block_size = Some 10,
        num_workers = 8\<rparr>))
   = [[''-i'', ''v.m4s'', ''-i'', ''a.m4s'', ''-vcodec'', ''copy'', ''-acodec'', ''flac'',
       ''-strict'', ''unofficial'', ''-threads'', ''16'', ''-y'', ''o.mp4'']]"
  using merge_copy_directive [of
      "\<lparr>selected_video = None, selected_audio = None, output_exists = False,
        video_written_size = 0, video_size = None, audio_written_size = 0,
        audio_size = None, cpu_count = Some 16\<rparr>"
      "Some \<lparr>v_url = ''u'', v_mirrors = [], v_codec = ''avc'', v_width = 1280,
              v_height = 720, v_quality = 64\<rparr>"
      "Path ''v.m4s''"
      "Some \<lparr>a_url = ''au'', a_mirrors = [], a_codec = ''mp4a'', a_quality = 30280\<rparr>"
      "Path ''a.m4s''" "Path ''o.mp4''"
      "\<lparr>require_video = True, require_audio = True, video_save_codec = ''avc'',
        audio_save_codec = ''flac'', output_format = ''infer'',
        output_format_audio_only = ''infer'', overwrite = False, block_size = Some 10,
        num_workers = 8\<rparr>"]
  by (simp add: merge_vtag_def str_cpu_count_def str_nat.simps digit_char_def)

text \<open>
  Claim C2, as amended. With the requested video save codec \<open>hevc\<close>: for a source codec
  \<open>hevc\<close> the video directive is \<open>copy\<close> and \<open>-tag:v hvc1\<close> is passed; for a source
  codec \<open>avc\<close> the directive stays \<open>hevc\<close> (a transcode) and \<open>-tag:v hvc1\<close> is passed
  as well, since the tag is chosen from the requested codec before the directive is
  rewritten.
\<close>

theorem merge_hevc_tag:
  assumes "video_save_codec options = ''hevc''"
    and "v_codec v = ''hevc'' \<or> v_codec v = ''avc''"
  shows "ffmpeg_args (fst (merge_video_and_audio w (Some v) vp audio ap out options)) =
     [[''-i'', str_path vp]
      @ (case audio of None \<Rightarrow> [] | Some a \<Rightarrow> [''-i'', str_path ap])
      @ [''-vcodec'', if v_codec v = ''hevc'' then ''copy'' else ''hevc'']
      @ (case audio of None \<Rightarrow> []
         | Some a \<Rightarrow> [''-acodec'', if a_codec a = audio_save_codec options then ''copy''
                                    else audio_save_codec options])
      @ [''-strict'', ''unofficial'', ''-tag:v'', ''hvc1'',
         ''-threads'', str_cpu_count (cpu_count w), ''-y'', str_path out]]"
proof -
  have tag: "merge_vtag (Some v) options = Some ''hvc1''"
    using assms(1) by (simp add: merge_vtag_def)
  have vc: "video_save_codec (merge_options (Some v) audio options) =
              (if v_codec v = ''hevc'' then ''copy'' else ''hevc'')"
    using assms(1) by (simp add: video_save_codec_merge_options)
  show ?thesis
    using tag vc
    by (cases audio)
      (simp_all add: ffmpeg_args_merge audio_save_codec_merge_options)
qed

theorem merge_hevc_tag_witness:
  "ffmpeg_args (fst (merge_video_and_audio
      \<lparr>selected_video = None, selected_audio = None, output_exists = False,
        video_written_size = 0, video_size = None, audio_written_size = 0,
        audio_size = None, cpu_count = Some 4\<rparr>
      (Some \<lparr>v_url = ''u'', v_mirrors = [], v_codec = ''hevc'', v_width = 1920,
              v_height = 1080, v_quality = 80\<rparr>)
      (Path ''v.m4s'') None (Path ''a.m4s'') (Path ''o.mp4'')
      \<lparr>require_video = True, require_audio = True, video_save_codec = ''hevc'',
        audio_save_codec = ''mp4a'', output_format = ''infer'',
        output_format_audio_only = ''infer'', overwrite = False, block_size = None,
        num_workers = 8\<rparr>))
   = [[''-i'', ''v.m4s'', ''-vcodec'', ''copy'', ''-strict'', ''unofficial'', ''-tag:v'', ''hvc1'',
       ''-threads'', ''4'', ''-y'', ''o.mp4'']]
   \<and> ffmpeg_args (fst (merge_video_and_audio
      \<lparr>selected_video = None, selected_audio = None, output_exists = False,
        video_written_size = 0, video_size = None, audio_written_size = 0,
        audio_size = None, cpu_count = Some 4\<rparr>
      (Some \<lparr>v_url = ''u'', v_mirrors = [], v_codec = ''avc'', v_width = 1920,
              v_height = 1080, v_quality = 80\<rparr>)
      (Path ''v.m4s'') None (Path ''a.m4s'') (Path ''o.mp4'')
      \<lparr>require_video = True, require_audio = True, video_save_codec = ''hevc'',
        audio_save_codec = ''mp4a'', output_format = ''infer'',
        output_format_audio_only = ''infer'', overwrite = False, block_size = None,
        num_workers = 8\<rparr>))
   = [[''-i'', ''v.m4s'', ''-vcodec'', ''hevc'', ''-strict'', ''unofficial'', ''-tag:v'', ''hvc1'',
       ''-threads'', ''4'', ''-y'', ''o.mp4'']]"
  using
    merge_hevc_tag [of
      "\<lparr>require_video = True, require_audio = True, video_save_codec = ''hevc'',
        audio_save_codec = ''mp4a'', output_format = ''infer'',
        output_format_audio_only = ''infer'', overwrite = False, block_size = None,
        num_workers = 8\<rparr>"
      "\<lparr>v_url = ''u'', v_mirrors = [], v_codec = ''hevc'', v_width = 1920,
              v_height = 1080, v_quality = 80\<rparr>"
      "\<lparr>selected_video = None, selected_audio = None, output_exists = False,
        video_written_size = 0, video_size = None, audio_written_size = 0,
        audio_size = None, cpu_count = Some 4\<rparr>"
      "Path ''v.m4s''" None "Path ''a.m4s''" "Path ''o.mp4''"]
    merge_hevc_tag [of
      "\<lparr>require_video = True, require_audio = True, video_save_codec = ''hevc'',
        audio_save_codec = ''mp4a'', output_format = ''infer'',
        output_format_audio_only = ''infer'', overwrite = False, block_size = None,
        num_workers = 8\<rparr>"
      "\<lparr>v_url = ''u'', v_mirrors = [], v_codec = ''avc'', v_width = 1920,
              v_height = 1080, v_quality = 80\<rparr>"
      "\<lparr>selected_video = None, selected_audio = None, output_exists = False,
        video_written_size = 0, video_size = None, audio_written_size = 0,
        audio_size = None, cpu_count = Some 4\<rparr>"
      "Path ''v.m4s''" None "Path ''a.m4s''" "Path ''o.mp4''"]
  by (simp add: str_cpu_count_def str_nat.simps digit_char_def)

text \<open>
  Claim C2 as stated fails in its second half: for the source codec \<open>avc\<close> and the
  requested save codec \<open>hevc\<close> the muxer's arguments do contain \<open>-tag:v hvc1\<close>.
\<close>

theorem merge_avc_to_hevc_is_tagged:
  "ffmpeg_args (fst (merge_video_and_audio
      \<lparr>selected_video = None, selected_audio = None, output_exists = False,
        video_written_size = 0, video_size = None, audio_written_size = 0,
        audio_size = None, cpu_count = Some 4\<rparr>
      (Some \<lparr>v_url = ''u'', v_mirrors = [], v_codec = ''avc'', v_width = 1920,
              v_height = 1080, v_quality = 80\<rparr>)
      (Path ''v.m4s'') None (Path ''a.m4s'') (Path ''o.mp4'')
      \<lparr>require_video = True, require_audio = True, video_save_codec = ''hevc'',
        audio_save_codec = ''mp4a'', output_format = ''infer'',
        output_format_audio_only = ''infer'', overwrite = False, block_size = None,
        num_workers = 8\<rparr>))
   = [[''-i'', ''v.m4s'', ''-vcodec'', ''hevc'', ''-strict'', ''unofficial'', ''-tag:v'', ''hvc1'',
       ''-threads'', ''4'', ''-y'', ''o.mp4'']]
   \<and> ''-tag:v'' \<in> set [''-i'', ''v.m4s'', ''-vcodec'', ''hevc'', ''-strict'', ''unofficial'',
         ''-tag:v'', ''hvc1'', ''-threads'', ''4'', ''-y'', ''o.mp4'']"
  by (simp add: merge_video_and_audio_def merge_vtag_def merge_options_def Let_def
        str_cpu_count_def str_nat.simps digit_char_def)

section \<open>Properties of \<open>start_downloader\<close>\<close>

subsection \<open>The shape of a run\<close>

lemma ancillary_writes_no_network: "filter is_network (ancillary_writes w ep p) = []"
  by (cases "metadata ep") (simp_all add: ancillary_writes_def filter_empty_conv)

lemma ancillary_writes_no_ffmpeg: "filter is_ffmpeg (ancillary_writes w ep p) = []"
  by (cases "metadata ep") (simp_all add: ancillary_writes_def filter_empty_conv)

lemma ancillary_writes_all: "filter is_ancillary (ancillary_writes w ep p) = ancillary_writes w ep p"
  by (cases "metadata ep") (simp_all add: ancillary_writes_def filter_id_conv)

lemma download_no_ancillary:
  "filter is_ancillary (fst (download_video_and_audio w v vp a ap options)) = []"
  by (cases v; cases a)
    (simp_all add: download_video_and_audio_def Let_def split: sum.splits)

lemma merge_no_ancillary:
  "filter is_ancillary (fst (merge_video_and_audio w v vp a ap out options)) = []"
  by (cases v; cases a) (simp_all add: merge_video_and_audio_def Let_def)

lemma start_downloader_skipped:
  "output_exists w \<Longrightarrow> \<not> overwrite options \<Longrightarrow>
     start_downloader w ep options =
       \<lparr>trace = [Mkdir (Path (tmp_dir ep)), Mkdir (Path (output_dir ep))]
                  @ ancillary_writes w ep (output_path_of w ep options)
                  @ [Exists (output_path_of w ep options)],
        result = Skipped, options_after = options\<rparr>"
  by (simp add: start_downloader_def Let_def)

lemma start_downloader_result_skipped:
  "(result (start_downloader w ep options) = Skipped) = (output_exists w \<and> \<not> overwrite options)"
  by (simp add: start_downloader_def Let_def split: prod.splits sum.splits)

lemma start_downloader_result_nothing:
  "(result (start_downloader w ep options) = NothingToDo) =
     (\<not> (output_exists w \<and> \<not> overwrite options)
      \<and> \<not> (will_download_audio w options \<or> will_download_video w options))"
  by (simp add: start_downloader_def Let_def split: prod.splits sum.splits)

lemma start_downloader_continue:
  assumes "\<not> (output_exists w \<and> \<not> overwrite options)"
    and "will_download_audio w options \<or> will_download_video w options"
  shows "start_downloader w ep options =
     (let video = (if will_download_video w options then selected_video w else None);
          audio = (if will_download_audio w options then selected_audio w else None);
          ev2 = [Mkdir (Path (tmp_dir ep)), Mkdir (Path (output_dir ep))]
                  @ ancillary_writes w ep (output_path_of w ep options)
                  @ [Exists (output_path_of w ep options)]
                  @ (if output_exists w then [Unlink (output_path_of w ep options)] else []);
          D = download_video_and_audio w video (video_path_of ep) audio (audio_path_of ep) options;
          M = merge_video_and_audio w video (video_path_of ep) audio (audio_path_of ep)
                (output_path_of w ep options) options
      in case snd D of
           Inl e \<Rightarrow> \<lparr>trace = ev2 @ fst D, result = Failed e, options_after = options\<rparr>
         | Inr u \<Rightarrow> \<lparr>trace = ev2 @ fst D @ fst M, result = Done, options_after = snd M\<rparr>)"
  using assms
  by (simp add: start_downloader_def Let_def split: prod.splits sum.splits)

lemma start_downloader_trace:
  "\<exists>rest. trace (start_downloader w ep options) =
       [Mkdir (Path (tmp_dir ep)), Mkdir (Path (output_dir ep))]
       @ ancillary_writes w ep (output_path_of w ep options)
       @ [Exists (output_path_of w ep options)] @ rest
     \<and> filter is_ancillary rest = []
     \<and> (result (start_downloader w ep options) = Skipped \<longrightarrow> rest = [])
     \<and> (result (start_downloader w ep options) = NothingToDo \<longrightarrow>
           rest = (if output_exists w then [Unlink (output_path_of w ep options)] else []))"
proof (cases "output_exists w \<and> \<not> overwrite options")
  case True
  then show ?thesis by (simp add: start_downloader_skipped)
next
  case False
  note nskip = this
  show ?thesis
  proof (cases "will_download_audio w options \<or> will_download_video w options")
    case False
    with nskip show ?thesis by (simp add: start_downloader_def Let_def)
  next
    case True
    show ?thesis
      unfolding start_downloader_continue [OF nskip True] Let_def
      by (simp add: download_no_ancillary merge_no_ancillary split: sum.splits)
  qed
qed

lemma merge_options_eq:
  "merge_options video audio options =
       options\<lparr>video_save_codec := video_save_codec (merge_options video audio options),
               audio_save_codec := audio_save_codec (merge_options video audio options)\<rparr>"
  by (cases video; cases audio) (simp_all add: merge_options_def Let_def)

lemma will_download_output_exists [simp]:
  "will_download_video (w\<lparr>output_exists := b\<rparr>) options = will_download_video w options"
  "will_download_audio (w\<lparr>output_exists := b\<rparr>) options = will_download_audio w options"
  by (simp_all add: will_download_video_def will_download_audio_def)

lemma output_path_output_exists [simp]:
  "output_path_of (w\<lparr>output_exists := b\<rparr>) ep options = output_path_of w ep options"
  by (simp add: output_path_of_def output_format_of_def Let_def cong: if_cong)

lemma ancillary_output_exists [simp]:
  "ancillary_writes (w\<lparr>output_exists := b\<rparr>) ep p = ancillary_writes w ep p"
  by (simp add: ancillary_writes_def cong: if_cong)

lemma download_output_exists [simp]:
  "download_video_and_audio (w\<lparr>output_exists := b\<rparr>) v vp a ap options =
     download_video_and_audio w v vp a ap options"
  by (cases v; cases a) (simp_all add: download_video_and_audio_def Let_def cong: sum.case_cong)

lemma merge_output_exists [simp]:
  "merge_video_and_audio (w\<lparr>output_exists := b\<rparr>) v vp a ap out options =
     merge_video_and_audio w v vp a ap out options"
  by (cases v; cases a) (simp_all add: merge_video_and_audio_def Let_def)

lemma start_downloader_overwrite:
  assumes "output_exists w" and "overwrite options"
  shows "\<exists>post.
      trace (start_downloader w ep options) =
        [Mkdir (Path (tmp_dir ep)), Mkdir (Path (output_dir ep))]
        @ ancillary_writes w ep (output_path_of w ep options)
        @ [Exists (output_path_of w ep options), Unlink (output_path_of w ep options)] @ post
    \<and> trace (start_downloader (w\<lparr>output_exists := False\<rparr>) ep options) =
        [Mkdir (Path (tmp_dir ep)), Mkdir (Path (output_dir ep))]
        @ ancillary_writes w ep (output_path_of w ep options)
        @ [Exists (output_path_of w ep options)] @ post
    \<and> result (start_downloader w ep options)
        = result (start_downloader (w\<lparr>output_exists := False\<rparr>) ep options)
    \<and> options_after (start_downloader w ep options)
        = options_after (start_downloader (w\<lparr>output_exists := False\<rparr>) ep options)"
proof (cases "will_download_audio w options \<or> will_download_video w options")
  case False
  with assms show ?thesis by (simp add: start_downloader_def Let_def)
next
  case True
  have a: "\<not> (output_exists w \<and> \<not> overwrite options)" using assms by simp
  have b: "\<not> (output_exists (w\<lparr>output_exists := False\<rparr>) \<and> \<not> overwrite options)" by simp
  have c: "will_download_audio (w\<lparr>output_exists := False\<rparr>) options
             \<or> will_download_video (w\<lparr>output_exists := False\<rparr>) options"
    using True by simp
  show ?thesis
    unfolding start_downloader_continue [OF a True] start_downloader_continue [OF b c] Let_def
    using assms by (simp split: sum.splits)
qed

lemma ffmpeg_args_merge_copy:
  assumes "video_save_codec options = ''copy''"
  shows "ffmpeg_args (fst (merge_video_and_audio w (Some v) vp audio ap out options)) =
     [[''-i'', str_path vp]
      @ (case audio of None \<Rightarrow> [] | Some a \<Rightarrow> [''-i'', str_path ap])
      @ [''-vcodec'', ''copy'']
      @ (case audio of None \<Rightarrow> []
         | Some a \<Rightarrow> [''-acodec'', audio_save_codec (merge_options (Some v) audio options)])
      @ [''-strict'', ''unofficial'']
      @ (case merge_vtag (Some v) options of None \<Rightarrow> [] | Some t \<Rightarrow> [''-tag:v'', t])
      @ [''-threads'', str_cpu_count (cpu_count w)]
      @ [''-y'', str_path out]]"
proof -
  have "video_save_codec (merge_options (Some v) audio options) = ''copy''"
    using assms by (simp add: video_save_codec_merge_options)
  then show ?thesis by (cases audio) (simp_all add: ffmpeg_args_merge)
qed

lemma start_downloader_done:
  assumes "\<not> (output_exists w \<and> \<not> overwrite options)"
    and "will_download_audio w options \<or> will_download_video w options"
    and "snd (download_video_and_audio w
                 (if will_download_video w options then selected_video w else None)
                 (video_path_of ep)
                 (if will_download_audio w options then selected_audio w else None)
                 (audio_path_of ep) options) = Inr u"
  shows "start_downloader w ep options =
     \<lparr>trace = [Mkdir (Path (tmp_dir ep)), Mkdir (Path (output_dir ep))]
                  @ ancillary_writes w ep (output_path_of w ep options)
                  @ [Exists (output_path_of w ep options)]
                  @ (if output_exists w then [Unlink (output_path_of w ep options)] else [])
                  @ fst (download_video_and_audio w
                           (if will_download_video w options then selected_video w else None)
                           (video_path_of ep)
                           (if will_download_audio w options then selected_audio w else None)
                           (audio_path_of ep) options)
                  @ fst (merge_video_and_audio w
                           (if will_download_video w options then selected_video w else None)
                           (video_path_of ep)
                           (if will_download_audio w options then selected_audio w else None)
                           (audio_path_of ep) (output_path_of w ep options) options),
      result = Done,
      options_after = snd (merge_video_and_audio w
                           (if will_download_video w options then selected_video w else None)
                           (video_path_of ep)
                           (if will_download_audio w options then selected_audio w else None)
                           (audio_path_of ep) (output_path_of w ep options) options)\<rparr>"
  unfolding start_downloader_continue [OF assms(1,2)] Let_def assms(3)
  by (simp split del: if_split)

lemma start_downloader_failed:
  assumes "\<not> (output_exists w \<and> \<not> overwrite options)"
    and "will_download_audio w options \<or> will_download_video w options"
    and "snd (download_video_and_audio w
                 (if will_download_video w options then selected_video w else None)
                 (video_path_of ep)
                 (if will_download_audio w options then selected_audio w else None)
                 (audio_path_of ep) options) = Inl e"
  shows "start_downloader w ep options =
     \<lparr>trace = [Mkdir (Path (tmp_dir ep)), Mkdir (Path (output_dir ep))]
                  @ ancillary_writes w ep (output_path_of w ep options)
                  @ [Exists (output_path_of w ep options)]
                  @ (if output_exists w then [Unlink (output_path_of w ep options)] else [])
                  @ fst (download_video_and_audio w
                           (if will_download_video w options then selected_video w else None)
                           (video_path_of ep)
                           (if will_download_audio w options then selected_audio w else None)
                           (audio_path_of ep) options),
      result = Failed e, options_after = options\<rparr>"
  unfolding start_downloader_continue [OF assms(1,2)] Let_def assms(3)
  by (simp split del: if_split)

lemma start_downloader_done_options:
  assumes "result (start_downloader w ep options) = Done"
  shows "options_after (start_downloader w ep options) =
           snd (merge_video_and_audio w
                 (if will_download_video w options then selected_video w else None)
                 (video_path_of ep)
                 (if will_download_audio w options then selected_audio w else None)
                 (audio_path_of ep) (output_path_of w ep options) options)"
proof -
  have a: "\<not> (output_exists w \<and> \<not> overwrite options)"
    using assms start_downloader_result_skipped [of w ep options] by auto
  have b: "will_download_audio w options \<or> will_download_video w options"
  proof (rule ccontr)
    assume "\<not> ?thesis"
    with a have "result (start_downloader w ep options) = NothingToDo"
      by (simp add: start_downloader_result_nothing)
    with assms show False by simp
  qed
  show ?thesis
  proof (cases "snd (download_video_and_audio w
                 (if will_download_video w options then selected_video w else None)
                 (video_path_of ep)
                 (if will_download_audio w options then selected_audio w else None)
                 (audio_path_of ep) options)")
    case (Inl e)
    from assms show ?thesis unfolding start_downloader_failed [OF a b Inl] by simp
  next
    case (Inr u)
    show ?thesis unfolding start_downloader_done [OF a b Inr] by simp
  qed
qed

subsection \<open>The options after a merge\<close>

text \<open>
  Claim C9. \<open>merge_video_and_audio\<close> changes the options of its caller: when the video
  stream's source codec equals \<open>video_save_codec\<close> the field is \<open>copy\<close> afterwards, and
  likewise for the audio stream and \<open>audio_save_codec\<close>; no other field changes. The
  options that \<open>start_downloader\<close> leaves to its caller after a finished job are the
  ones the merge left, so a later merge with the same options finds \<open>copy\<close>: whatever
  the codec of its video stream, its video directive is \<open>copy\<close> and not the codec
  requested at first.
\<close>

theorem merge_mutates_caller_options:
  "(\<forall>v. video = Some v \<and> v_codec v = video_save_codec options \<longrightarrow>
       video_save_codec (snd (merge_video_and_audio w video vp audio ap out options)) = ''copy''
       \<and> (\<forall>w2 v2 vp2 audio2 ap2 out2. \<exists>pre post.
             ffmpeg_args (fst (merge_video_and_audio w2 (Some v2) vp2 audio2 ap2 out2
                (snd (merge_video_and_audio w video vp audio ap out options))))
               = [pre @ [''-vcodec'', ''copy''] @ post]
             \<and> pre = [''-i'', str_path vp2]
                    @ (case audio2 of None \<Rightarrow> [] | Some a \<Rightarrow> [''-i'', str_path ap2])))
   \<and> (\<forall>a. audio = Some a \<and> a_codec a = audio_save_codec options \<longrightarrow>
       audio_save_codec (snd (merge_video_and_audio w video vp audio ap out options)) = ''copy'')
   \<and> snd (merge_video_and_audio w video vp audio ap out options) =
       options\<lparr>video_save_codec :=
                  video_save_codec (snd (merge_video_and_audio w video vp audio ap out options)),
               audio_save_codec :=
                  audio_save_codec (snd (merge_video_and_audio w video vp audio ap out options))\<rparr>
   \<and> (result (start_downloader w ep options) = Done \<longrightarrow>
        options_after (start_downloader w ep options) =
           snd (merge_video_and_audio w
                 (if will_download_video w options then selected_video w else None)
                 (video_path_of ep)
                 (if will_download_audio w options then selected_audio w else None)
                 (audio_path_of ep) (output_path_of w ep options) options))"
proof (intro conjI allI impI)
  fix v assume "video = Some v \<and> v_codec v = video_save_codec options"
  then show c: "video_save_codec (snd (merge_video_and_audio w video vp audio ap out options))
                 = ''copy''"
    by (simp add: snd_merge video_save_codec_merge_options)
  fix w2 v2 vp2 audio2 ap2 out2
  show "\<exists>pre post.
             ffmpeg_args (fst (merge_video_and_audio w2 (Some v2) vp2 audio2 ap2 out2
                (snd (merge_video_and_audio w video vp audio ap out options))))
               = [pre @ [''-vcodec'', ''copy''] @ post]
             \<and> pre = [''-i'', str_path vp2]
                    @ (case audio2 of None \<Rightarrow> [] | Some a \<Rightarrow> [''-i'', str_path ap2])"
    by (simp add: ffmpeg_args_merge_copy [OF c])
next
  fix a assume "audio = Some a \<and> a_codec a = audio_save_codec options"
  then show "audio_save_codec (snd (merge_video_and_audio w video vp audio ap out options))
                 = ''copy''"
    by (simp add: snd_merge audio_save_codec_merge_options)
next
  show "snd (merge_video_and_audio w video vp audio ap out options) =
       options\<lparr>video_save_codec :=
                  video_save_codec (snd (merge_video_and_audio w video vp audio ap out options)),
               audio_save_codec :=
                  audio_save_codec (snd (merge_video_and_audio w video vp audio ap out options))\<rparr>"
    unfolding snd_merge by (rule merge_options_eq)
next
  assume "result (start_downloader w ep options) = Done"
  then show "options_after (start_downloader w ep options) =
           snd (merge_video_and_audio w
                 (if will_download_video w options then selected_video w else None)
                 (video_path_of ep)
                 (if will_download_audio w options then selected_audio w else None)
                 (audio_path_of ep) (output_path_of w ep options) options)"
    by (rule start_downloader_done_options)
qed

theorem merge_mutates_caller_options_witness:
  "v_codec \<lparr>v_url = ''u'', v_mirrors = [], v_codec = ''hevc'', v_width = 1920,
              v_height = 1080, v_quality = 80\<rparr>
     = video_save_codec \<lparr>require_video = True, require_audio = True, video_save_codec = ''hevc'',
        audio_save_codec = ''mp4a'', output_format = ''infer'',
        output_format_audio_only = ''infer'', overwrite = False, block_size = None,
        num_workers = 8\<rparr>
   \<and> video_save_codec (snd (merge_video_and_audio
      \<lparr>selected_video = None, selected_audio = None, output_exists = False,
        video_written_size = 0, video_size = None, audio_written_size = 0,
        audio_size = None, cpu_count = Some 4\<rparr>
      (Some \<lparr>v_url = ''u'', v_mirrors = [], v_codec = ''hevc'', v_width = 1920,
              v_height = 1080, v_quality = 80\<rparr>)
      (Path ''v.m4s'') None (Path ''a.m4s'') (Path ''o.mp4'')
      \<lparr>require_video = True, require_audio = True, video_save_codec = ''hevc'',
        audio_save_codec = ''mp4a'', output_format = ''infer'',
        output_format_audio_only = ''infer'', overwrite = False, block_size = None,
        num_workers = 8\<rparr>)) = ''copy''
   \<and> ffmpeg_args (fst (merge_video_and_audio
      \<lparr>selected_video = None, selected_audio = None, output_exists = False,
        video_written_size = 0, video_size = None, audio_written_size = 0,
        audio_size = None, cpu_count = Some 4\<rparr>
      (Some \<lparr>v_url = ''u2'', v_mirrors = [], v_codec = ''avc'', v_width = 1920,
              v_height = 1080, v_quality = 80\<rparr>)
      (Path ''v2.m4s'') None (Path ''a2.m4s'') (Path ''o2.mp4'')
      (snd (merge_video_and_audio
      \<lparr>selected_video = None, selected_audio = None, output_exists = False,
        video_written_size = 0, video_size = None, audio_written_size = 0,
        audio_size = None, cpu_count = Some 4\<rparr>
      (Some \<lparr>v_url = ''u'', v_mirrors = [], v_codec = ''hevc'', v_width = 1920,
              v_height = 1080, v_quality = 80\<rparr>)
      (Path ''v.m4s'') None (Path ''a.m4s'') (Path ''o.mp4'')
      \<lparr>require_video = True, require_audio = True, video_save_codec = ''hevc'',
        audio_save_codec = ''mp4a'', output_format = ''infer'',
        output_format_audio_only = ''infer'', overwrite = False, block_size = None,
        num_workers = 8\<rparr>))))
     = [[''-i'', ''v2.m4s'', ''-vcodec'', ''copy'', ''-strict'', ''unofficial'',
         ''-threads'', ''4'', ''-y'', ''o2.mp4'']]"
  using merge_mutates_caller_options [where
      video = "Some \<lparr>v_url = ''u'', v_mirrors = [], v_codec = ''hevc'', v_width = 1920,
              v_height = 1080, v_quality = 80\<rparr>"
      and options = "\<lparr>require_video = True, require_audio = True, video_save_codec = ''hevc'',
        audio_save_codec = ''mp4a'', output_format = ''infer'',
        output_format_audio_only = ''infer'', overwrite = False, block_size = None,
        num_workers = 8\<rparr>"
      and w = "\<lparr>selected_video = None, selected_audio = None, output_exists = False,
        video_written_size = 0, video_size = None, audio_written_size = 0,
        audio_size = None, cpu_count = Some 4\<rparr>"
      and vp = "Path ''v.m4s''" and audio = None and ap = "Path ''a.m4s''"
      and out = "Path ''o.mp4''"]
  by (simp add: merge_video_and_audio_def merge_vtag_def merge_options_def Let_def
        str_cpu_count_def str_nat.simps digit_char_def)

subsection \<open>The events of a run\<close>

lemma start_downloader_nothing:
  assumes "\<not> (output_exists w \<and> \<not> overwrite options)"
    and "\<not> (will_download_audio w options \<or> will_download_video w options)"
  shows "start_downloader w ep options =
     \<lparr>trace = [Mkdir (Path (tmp_dir ep)), Mkdir (Path (output_dir ep))]
                  @ ancillary_writes w ep (output_path_of w ep options)
                  @ [Exists (output_path_of w ep options)]
                  @ (if output_exists w then [Unlink (output_path_of w ep options)] else []),
      result = NothingToDo, options_after = options\<rparr>"
  using assms by (simp add: start_downloader_def Let_def)

lemma ancillary_writes_no_open: "OpenBuffer p b \<notin> set (ancillary_writes w ep out)"
  by (cases "metadata ep") (auto simp add: ancillary_writes_def)

lemma ancillary_writes_no_exec: "FFmpegExec args \<notin> set (ancillary_writes w ep out)"
  by (cases "metadata ep") (auto simp add: ancillary_writes_def)

lemma download_open_buffers:
  "OpenBuffer p b \<in> set (fst (download_video_and_audio w v vp a ap options))
     \<Longrightarrow> p = vp \<or> p = ap"
  by (cases v; cases a)
    (simp_all add: download_video_and_audio_def Let_def split: sum.splits, blast+)

lemma download_no_exec:
  "FFmpegExec args \<notin> set (fst (download_video_and_audio w v vp a ap options))"
  by (cases v; cases a)
    (simp_all add: download_video_and_audio_def Let_def split: sum.splits)

lemma merge_no_open:
  "OpenBuffer p b \<notin> set (fst (merge_video_and_audio w v vp a ap out options))"
  by (cases v; cases a) (simp_all add: merge_video_and_audio_def Let_def)

lemma merge_exec_output:
  assumes "FFmpegExec args \<in> set (fst (merge_video_and_audio w v vp a ap out options))"
  shows "\<exists>pre. args = pre @ [''-y'', str_path out]"
proof -
  define front where "front =
      (case v of None \<Rightarrow> [] | Some x \<Rightarrow> [''-i'', str_path vp])
      @ (case a of None \<Rightarrow> [] | Some x \<Rightarrow> [''-i'', str_path ap])
      @ (case v of None \<Rightarrow> []
         | Some x \<Rightarrow> [''-vcodec'', video_save_codec (merge_options v a options)])
      @ (case a of None \<Rightarrow> []
         | Some x \<Rightarrow> [''-acodec'', audio_save_codec (merge_options v a options)])
      @ [''-strict'', ''unofficial'']
      @ (case merge_vtag v options of None \<Rightarrow> [] | Some t \<Rightarrow> [''-tag:v'', t])
      @ [''-threads'', str_cpu_count (cpu_count w)]"
  have "fst (merge_video_and_audio w v vp a ap out options) =
     FFmpegExec (front @ [''-y'', str_path out])
       # (case v of None \<Rightarrow> [] | Some x \<Rightarrow> [Unlink vp])
       @ (case a of None \<Rightarrow> [] | Some x \<Rightarrow> [Unlink ap])"
    unfolding front_def
    by (cases v; cases a) (simp_all add: merge_video_and_audio_def Let_def)
  with assms have "args = front @ [''-y'', str_path out]"
    by (cases v; cases a) simp_all
  then show ?thesis by (rule exI)
qed

lemma start_downloader_trace_subset:
  "set (trace (start_downloader w ep options)) \<subseteq>
     {Mkdir (Path (tmp_dir ep)), Mkdir (Path (output_dir ep)),
      Exists (output_path_of w ep options), Unlink (output_path_of w ep options)}
     \<union> set (ancillary_writes w ep (output_path_of w ep options))
     \<union> set (fst (download_video_and_audio w
                 (if will_download_video w options then selected_video w else None)
                 (video_path_of ep)
                 (if will_download_audio w options then selected_audio w else None)
                 (audio_path_of ep) options))
     \<union> set (fst (merge_video_and_audio w
                 (if will_download_video w options then selected_video w else None)
                 (video_path_of ep)
                 (if will_download_audio w options then selected_audio w else None)
                 (audio_path_of ep) (output_path_of w ep options) options))"
proof -
  define D where "D = download_video_and_audio w
                 (if will_download_video w options then selected_video w else None)
                 (video_path_of ep)
                 (if will_download_audio w options then selected_audio w else None)
                 (audio_path_of ep) options"
  define M where "M = merge_video_and_audio w
                 (if will_download_video w options then selected_video w else None)
                 (video_path_of ep)
                 (if will_download_audio w options then selected_audio w else None)
                 (audio_path_of ep) (output_path_of w ep options) options"
  define A where "A = ancillary_writes w ep (output_path_of w ep options)"
  define U where "U = (if output_exists w then [Unlink (output_path_of w ep options)] else [])"
  have U: "set U \<subseteq> {Unlink (output_path_of w ep options)}"
    by (auto simp add: U_def)
  have "set (trace (start_downloader w ep options)) \<subseteq>
     {Mkdir (Path (tmp_dir ep)), Mkdir (Path (output_dir ep)),
      Exists (output_path_of w ep options), Unlink (output_path_of w ep options)}
     \<union> set A \<union> set (fst D) \<union> set (fst M)"
  proof (cases "output_exists w \<and> \<not> overwrite options")
    case True
    then have "trace (start_downloader w ep options) =
        [Mkdir (Path (tmp_dir ep)), Mkdir (Path (output_dir ep))] @ A
          @ [Exists (output_path_of w ep options)]"
      by (simp add: start_downloader_skipped A_def)
    then show ?thesis by auto
  next
    case a: False
    show ?thesis
    proof (cases "will_download_audio w options \<or> will_download_video w options")
      case False
      have "trace (start_downloader w ep options) =
        [Mkdir (Path (tmp_dir ep)), Mkdir (Path (output_dir ep))] @ A
          @ [Exists (output_path_of w ep options)] @ U"
        unfolding start_downloader_nothing [OF a False] A_def U_def by simp
      then show ?thesis using U by auto
    next
      case b: True
      show ?thesis
      proof (cases "snd D")
        case (Inl e)
        have "trace (start_downloader w ep options) =
          [Mkdir (Path (tmp_dir ep)), Mkdir (Path (output_dir ep))] @ A
            @ [Exists (output_path_of w ep options)] @ U @ fst D"
          unfolding start_downloader_failed [OF a b Inl [unfolded D_def]] A_def U_def D_def
          by simp
        then show ?thesis using U by auto
      next
        case (Inr u)
        have "trace (start_downloader w ep options) =
          [Mkdir (Path (tmp_dir ep)), Mkdir (Path (output_dir ep))] @ A
            @ [Exists (output_path_of w ep options)] @ U @ fst D @ fst M"
          unfolding start_downloader_done [OF a b Inr [unfolded D_def]] A_def U_def D_def M_def
          by simp
        then show ?thesis using U by auto
      qed
    qed
  qed
  then show ?thesis unfolding A_def D_def M_def .
qed

lemma start_downloader_open_buffers:
  assumes "OpenBuffer p b \<in> set (trace (start_downloader w ep options))"
  shows "p = video_path_of ep \<or> p = audio_path_of ep"
proof -
  from assms start_downloader_trace_subset [of w ep options]
  have "OpenBuffer p b \<in> set (fst (download_video_and_audio w
                 (if will_download_video w options then selected_video w else None)
                 (video_path_of ep)
                 (if will_download_audio w options then selected_audio w else None)
                 (audio_path_of ep) options))"
    using ancillary_writes_no_open [of p b w ep "output_path_of w ep options"]
      merge_no_open [of p b w _ "video_path_of ep" _ "audio_path_of ep"
        "output_path_of w ep options" options]
    by (auto split del: if_split)
  then show ?thesis by (rule download_open_buffers)
qed

lemma start_downloader_exec_output:
  assumes "FFmpegExec args \<in> set (trace (start_downloader w ep options))"
  shows "\<exists>pre. args = pre @ [''-y'', str_path (output_path_of w ep options)]"
proof -
  from assms start_downloader_trace_subset [of w ep options]
  have "FFmpegExec args \<in> set (fst (merge_video_and_audio w
                 (if will_download_video w options then selected_video w else None)
                 (video_path_of ep)
                 (if will_download_audio w options then selected_audio w else None)
                 (audio_path_of ep) (output_path_of w ep options) options))"
    using ancillary_writes_no_exec [of args w ep "output_path_of w ep options"]
      download_no_exec [of args w _ "video_path_of ep" _ "audio_path_of ep" options]
    by (auto split del: if_split)
  then show ?thesis by (rule merge_exec_output)
qed

subsection \<open>The claims about a job\<close>

text \<open>
  Claim C3, as amended. The partial files of a job are \<open><filename>_video.m4s\<close> and
  \<open><filename>_audio.m4s\<close> in the temp directory: every buffer a run opens is one of the
  two. The muxer writes to the output path, which is \<open><filename>.<ext>\<close> in the output
  directory. When video will be downloaded, \<open>ext\<close> is the \<open>output_format\<close> option if
  that is not \<open>infer\<close>, else \<open>mkv\<close> when audio will be downloaded and its codec is
  \<open>fLaC\<close>, else \<open>mp4\<close>. When video will not be downloaded, \<open>ext\<close> is the
  \<open>output_format_audio_only\<close> option if that is not \<open>infer\<close>, else \<open>flac\<close> when audio
  will be downloaded and its codec is \<open>fLaC\<close>, else \<open>aac\<close>.
\<close>

theorem start_downloader_file_names:
  "video_path_of ep = Joinpath (Path (tmp_dir ep)) (filename ep @ ''_video.m4s'')
   \<and> audio_path_of ep = Joinpath (Path (tmp_dir ep)) (filename ep @ ''_audio.m4s'')
   \<and> (\<forall>p b. OpenBuffer p b \<in> set (trace (start_downloader w ep options)) \<longrightarrow>
          p = video_path_of ep \<or> p = audio_path_of ep)
   \<and> (\<forall>args. FFmpegExec args \<in> set (trace (start_downloader w ep options)) \<longrightarrow>
          (\<exists>pre. args = pre @ [''-y'', str_path (output_path_of w ep options)]))
   \<and> (\<exists>ext. output_path_of w ep options
               = Joinpath (Path (output_dir ep)) (filename ep @ ''.'' @ ext)
         \<and> (will_download_video w options \<longrightarrow>
               ext = (if output_format options \<noteq> ''infer'' then output_format options
                      else if will_download_audio w options
                              \<and> (\<exists>a. selected_audio w = Some a \<and> a_codec a = ''fLaC'')
                           then ''mkv'' else ''mp4''))
         \<and> (\<not> will_download_video w options \<longrightarrow>
               ext = (if output_format_audio_only options \<noteq> ''infer''
                      then output_format_audio_only options
                      else if will_download_audio w options
                              \<and> (\<exists>a. selected_audio w = Some a \<and> a_codec a = ''fLaC'')
                           then ''flac'' else ''aac'')))"
proof (intro conjI allI impI)
  show "video_path_of ep = Joinpath (Path (tmp_dir ep)) (filename ep @ ''_video.m4s'')"
    by (simp add: video_path_of_def)
  show "audio_path_of ep = Joinpath (Path (tmp_dir ep)) (filename ep @ ''_audio.m4s'')"
    by (simp add: audio_path_of_def)
next
  fix p b assume "OpenBuffer p b \<in> set (trace (start_downloader w ep options))"
  then show "p = video_path_of ep \<or> p = audio_path_of ep"
    by (rule start_downloader_open_buffers)
next
  fix args assume "FFmpegExec args \<in> set (trace (start_downloader w ep options))"
  then show "\<exists>pre. args = pre @ [''-y'', str_path (output_path_of w ep options)]"
    by (rule start_downloader_exec_output)
next
  have flac: "(case selected_audio w of None \<Rightarrow> False | Some a \<Rightarrow> a_codec a = ''fLaC'')
                = (\<exists>a. selected_audio w = Some a \<and> a_codec a = ''fLaC'')"
    by (cases "selected_audio w") simp_all
  define ext where "ext =
     (if will_download_video w options
      then (if output_format options \<noteq> ''infer'' then output_format options
            else if will_download_audio w options
                    \<and> (\<exists>a. selected_audio w = Some a \<and> a_codec a = ''fLaC'')
                 then ''mkv'' else ''mp4'')
      else (if output_format_audio_only options \<noteq> ''infer''
            then output_format_audio_only options
            else if will_download_audio w options
                    \<and> (\<exists>a. selected_audio w = Some a \<and> a_codec a = ''fLaC'')
                 then ''flac'' else ''aac''))"
  have "output_format_of w options = ''.'' @ ext"
    unfolding output_format_of_def Let_def flac ext_def
    by (cases "will_download_video w options";
        cases "will_download_audio w options
                 \<and> (\<exists>a. selected_audio w = Some a \<and> a_codec a = ''fLaC'')")
       (simp_all, blast+)
  then have "output_path_of w ep options
               = Joinpath (Path (output_dir ep)) (filename ep @ ''.'' @ ext)"
    by (simp add: output_path_of_def)
  moreover have "will_download_video w options \<longrightarrow>
               ext = (if output_format options \<noteq> ''infer'' then output_format options
                      else if will_download_audio w options
                              \<and> (\<exists>a. selected_audio w = Some a \<and> a_codec a = ''fLaC'')
                           then ''mkv'' else ''mp4'')"
    by (simp add: ext_def)
  moreover have "\<not> will_download_video w options \<longrightarrow>
               ext = (if output_format_audio_only options \<noteq> ''infer''
                      then output_format_audio_only options
                      else if will_download_audio w options
                              \<and> (\<exists>a. selected_audio w = Some a \<and> a_codec a = ''fLaC'')
                           then ''flac'' else ''aac'')"
    by (simp add: ext_def)
  ultimately show "\<exists>ext. output_path_of w ep options
               = Joinpath (Path (output_dir ep)) (filename ep @ ''.'' @ ext)
         \<and> (will_download_video w options \<longrightarrow>
               ext = (if output_format options \<noteq> ''infer'' then output_format options
                      else if will_download_audio w options
                              \<and> (\<exists>a. selected_audio w = Some a \<and> a_codec a = ''fLaC'')
                           then ''mkv'' else ''mp4''))
         \<and> (\<not> will_download_video w options \<longrightarrow>
               ext = (if output_format_audio_only options \<noteq> ''infer''
                      then output_format_audio_only options
                      else if will_download_audio w options
                              \<and> (\<exists>a. selected_audio w = Some a \<and> a_codec a = ''fLaC'')
                           then ''flac'' else ''aac''))"
    by blast
qed

theorem start_downloader_file_names_witness:
  "will_download_video
      \<lparr>selected_video = (Some \<lparr>v_url = ''vu'', v_mirrors = [''vm''], v_codec = ''hevc'', v_width = 1280,
          v_height = 720, v_quality = 64\<rparr>), selected_audio = (Some \<lparr>a_url = ''au'', a_mirrors = [], a_codec = ''fLaC'', a_quality = 30251\<rparr>),
        output_exists = True, video_written_size = 0, video_size = Some 25,
        audio_written_size = 0, audio_size = None, cpu_count = Some 4\<rparr>
      \<lparr>require_video = True, require_audio = True, video_save_codec = ''hevc'',
        audio_save_codec = ''copy'', output_format = ''infer'',
        output_format_audio_only = ''infer'', overwrite = False, block_size = Some 10,
        num_workers = 8\<rparr>
   \<and> output_path_of
      \<lparr>selected_video = (Some \<lparr>v_url = ''vu'', v_mirrors = [''vm''], v_codec = ''hevc'', v_width = 1280,
          v_height = 720, v_quality = 64\<rparr>), selected_audio = (Some \<lparr>a_url = ''au'', a_mirrors = [], a_codec = ''fLaC'', a_quality = 30251\<rparr>),
        output_exists = True, video_written_size = 0, video_size = Some 25,
        audio_written_size = 0, audio_size = None, cpu_count = Some 4\<rparr>
      \<lparr>subtitles = [\<lparr>sub_lines = [''hi''], sub_lang = ''en''\<rparr>],
        danmaku = \<lparr>dm_data = [''d''], dm_save_type = ''ass''\<rparr>, metadata = Some ''nfo'',
        output_dir = ''out'', tmp_dir = ''tmp'', filename = ''ep''\<rparr>
      \<lparr>require_video = True, require_audio = True, video_save_codec = ''hevc'',
        audio_save_codec = ''copy'', output_format = ''infer'',
        output_format_audio_only = ''infer'', overwrite = False, block_size = Some 10,
        num_workers = 8\<rparr> = Joinpath (Path ''out'') (''ep'' @ ''.'' @ ''mkv'')
   \<and> video_path_of
      \<lparr>subtitles = [\<lparr>sub_lines = [''hi''], sub_lang = ''en''\<rparr>],
        danmaku = \<lparr>dm_data = [''d''], dm_save_type = ''ass''\<rparr>, metadata = Some ''nfo'',
        output_dir = ''out'', tmp_dir = ''tmp'', filename = ''ep''\<rparr> = Joinpath (Path ''tmp'') ''ep_video.m4s''
   \<and> audio_path_of
      \<lparr>subtitles = [\<lparr>sub_lines = [''hi''], sub_lang = ''en''\<rparr>],
        danmaku = \<lparr>dm_data = [''d''], dm_save_type = ''ass''\<rparr>, metadata = Some ''nfo'',
        output_dir = ''out'', tmp_dir = ''tmp'', filename = ''ep''\<rparr> = Joinpath (Path ''tmp'') ''ep_audio.m4s''"
  using start_downloader_file_names [of
      "\<lparr>subtitles = [\<lparr>sub_lines = [''hi''], sub_lang = ''en''\<rparr>],
        danmaku = \<lparr>dm_data = [''d''], dm_save_type = ''ass''\<rparr>, metadata = Some ''nfo'',
        output_dir = ''out'', tmp_dir = ''tmp'', filename = ''ep''\<rparr>"
      "\<lparr>selected_video = (Some \<lparr>v_url = ''vu'', v_mirrors = [''vm''], v_codec = ''hevc'', v_width = 1280,
          v_height = 720, v_quality = 64\<rparr>), selected_audio = (Some \<lparr>a_url = ''au'', a_mirrors = [], a_codec = ''fLaC'', a_quality = 30251\<rparr>),
        output_exists = True, video_written_size = 0, video_size = Some 25,
        audio_written_size = 0, audio_size = None, cpu_count = Some 4\<rparr>"
      "\<lparr>require_video = True, require_audio = True, video_save_codec = ''hevc'',
        audio_save_codec = ''copy'', output_format = ''infer'',
        output_format_audio_only = ''infer'', overwrite = False, block_size = Some 10,
        num_workers = 8\<rparr>"]
  by (simp add: video_path_of_def audio_path_of_def output_path_of_def output_format_of_def
        will_download_video_def will_download_audio_def Let_def)

text \<open>
  Claim C3 as stated fails: video will be downloaded, both formats are \<open>infer\<close> and the
  selected audio is \<open>fLaC\<close>; the output file is \<open>ep.mkv\<close>, not \<open>ep.mp4\<close>.
\<close>

theorem output_extension_mkv_with_video:
  "will_download_video
      \<lparr>selected_video = (Some \<lparr>v_url = ''vu'', v_mirrors = [''vm''], v_codec = ''hevc'', v_width = 1280,
          v_height = 720, v_quality = 64\<rparr>), selected_audio = (Some \<lparr>a_url = ''au'', a_mirrors = [], a_codec = ''fLaC'', a_quality = 30251\<rparr>),
        output_exists = True, video_written_size = 0, video_size = Some 25,
        audio_written_size = 0, audio_size = None, cpu_count = Some 4\<rparr>
      \<lparr>require_video = True, require_audio = True, video_save_codec = ''hevc'',
        audio_save_codec = ''copy'', output_format = ''infer'',
        output_format_audio_only = ''infer'', overwrite = False, block_size = Some 10,
        num_workers = 8\<rparr>
   \<and> output_path_of
      \<lparr>selected_video = (Some \<lparr>v_url = ''vu'', v_mirrors = [''vm''], v_codec = ''hevc'', v_width = 1280,
          v_height = 720, v_quality = 64\<rparr>), selected_audio = (Some \<lparr>a_url = ''au'', a_mirrors = [], a_codec = ''fLaC'', a_quality = 30251\<rparr>),
        output_exists = True, video_written_size = 0, video_size = Some 25,
        audio_written_size = 0, audio_size = None, cpu_count = Some 4\<rparr>
      \<lparr>subtitles = [\<lparr>sub_lines = [''hi''], sub_lang = ''en''\<rparr>],
        danmaku = \<lparr>dm_data = [''d''], dm_save_type = ''ass''\<rparr>, metadata = Some ''nfo'',
        output_dir = ''out'', tmp_dir = ''tmp'', filename = ''ep''\<rparr>
      \<lparr>require_video = True, require_audio = True, video_save_codec = ''hevc'',
        audio_save_codec = ''copy'', output_format = ''infer'',
        output_format_audio_only = ''infer'', overwrite = False, block_size = Some 10,
        num_workers = 8\<rparr> = Joinpath (Path ''out'') ''ep.mkv''
   \<and> Joinpath (Path ''out'') ''ep.mkv'' \<noteq> Joinpath (Path ''out'') ''ep.mp4''"
  by (simp add: output_path_of_def output_format_of_def
        will_download_video_def will_download_audio_def Let_def)

text \<open>
  Claim C7. When the output file exists and \<open>overwrite\<close> is off, the run ends as
  \<open>Skipped\<close>, its trace has no network request and no invocation of the muxer, and the
  options are as they were. When the file exists and \<open>overwrite\<close> is on, the run
  deletes the output file right after the existence check and then goes on exactly as
  the run in which the file did not exist: same remaining events, same outcome (never
  \<open>Skipped\<close>), same options; nothing before the deletion touches the network or the
  muxer.
\<close>

theorem start_downloader_existing_output:
  assumes "output_exists w"
  shows "(\<not> overwrite options \<longrightarrow>
            result (start_downloader w ep options) = Skipped
            \<and> filter is_network (trace (start_downloader w ep options)) = []
            \<and> filter is_ffmpeg (trace (start_downloader w ep options)) = []
            \<and> options_after (start_downloader w ep options) = options)
       \<and> (overwrite options \<longrightarrow>
            (\<exists>pre post.
                trace (start_downloader w ep options)
                  = pre @ [Exists (output_path_of w ep options),
                           Unlink (output_path_of w ep options)] @ post
              \<and> trace (start_downloader (w\<lparr>output_exists := False\<rparr>) ep options)
                  = pre @ [Exists (output_path_of w ep options)] @ post
              \<and> filter is_network pre = [] \<and> filter is_ffmpeg pre = [])
            \<and> result (start_downloader w ep options) \<noteq> Skipped
            \<and> result (start_downloader w ep options)
                = result (start_downloader (w\<lparr>output_exists := False\<rparr>) ep options)
            \<and> options_after (start_downloader w ep options)
                = options_after (start_downloader (w\<lparr>output_exists := False\<rparr>) ep options))"
proof (intro conjI impI)
  assume no: "\<not> overwrite options"
  note sk = start_downloader_skipped [OF assms no, of ep]
  show "result (start_downloader w ep options) = Skipped" by (simp add: sk)
  show "filter is_network (trace (start_downloader w ep options)) = []"
    by (simp add: sk ancillary_writes_no_network)
  show "filter is_ffmpeg (trace (start_downloader w ep options)) = []"
    by (simp add: sk ancillary_writes_no_ffmpeg)
  show "options_after (start_downloader w ep options) = options" by (simp add: sk)
next
  assume ov: "overwrite options"
  from start_downloader_overwrite [OF assms ov, of ep] obtain post where
    t1: "trace (start_downloader w ep options) =
        [Mkdir (Path (tmp_dir ep)), Mkdir (Path (output_dir ep))]
        @ ancillary_writes w ep (output_path_of w ep options)
        @ [Exists (output_path_of w ep options), Unlink (output_path_of w ep options)] @ post"
    and t2: "trace (start_downloader (w\<lparr>output_exists := False\<rparr>) ep options) =
        [Mkdir (Path (tmp_dir ep)), Mkdir (Path (output_dir ep))]
        @ ancillary_writes w ep (output_path_of w ep options)
        @ [Exists (output_path_of w ep options)] @ post"
    and r: "result (start_downloader w ep options)
        = result (start_downloader (w\<lparr>output_exists := False\<rparr>) ep options)"
    and o: "options_after (start_downloader w ep options)
        = options_after (start_downloader (w\<lparr>output_exists := False\<rparr>) ep options)"
    by blast
  let ?pre = "[Mkdir (Path (tmp_dir ep)), Mkdir (Path (output_dir ep))]
        @ ancillary_writes w ep (output_path_of w ep options)"
  have "trace (start_downloader w ep options)
          = ?pre @ [Exists (output_path_of w ep options),
                    Unlink (output_path_of w ep options)] @ post
        \<and> trace (start_downloader (w\<lparr>output_exists := False\<rparr>) ep options)
          = ?pre @ [Exists (output_path_of w ep options)] @ post
        \<and> filter is_network ?pre = [] \<and> filter is_ffmpeg ?pre = []"
    using t1 t2 by (simp add: ancillary_writes_no_network ancillary_writes_no_ffmpeg)
  then show "\<exists>pre post.
                trace (start_downloader w ep options)
                  = pre @ [Exists (output_path_of w ep options),
                           Unlink (output_path_of w ep options)] @ post
              \<and> trace (start_downloader (w\<lparr>output_exists := False\<rparr>) ep options)
                  = pre @ [Exists (output_path_of w ep options)] @ post
              \<and> filter is_network pre = [] \<and> filter is_ffmpeg pre = []"
    by blast
  show "result (start_downloader w ep options) \<noteq> Skipped"
    using ov by (simp add: start_downloader_result_skipped)
  show "result (start_downloader w ep options)
                = result (start_downloader (w\<lparr>output_exists := False\<rparr>) ep options)"
    by (rule r)
  show "options_after (start_downloader w ep options)
                = options_after (start_downloader (w\<lparr>output_exists := False\<rparr>) ep options)"
    by (rule o)
qed

theorem start_downloader_existing_output_witness:
  "output_exists
      \<lparr>selected_video = (Some \<lparr>v_url = ''vu'', v_mirrors = [''vm''], v_codec = ''hevc'', v_width = 1280,
          v_height = 720, v_quality = 64\<rparr>), selected_audio = None,
        output_exists = True, video_written_size = 0, video_size = Some 25,
        audio_written_size = 0, audio_size = None, cpu_count = Some 4\<rparr>
   \<and> result (start_downloader
      \<lparr>selected_video = (Some \<lparr>v_url = ''vu'', v_mirrors = [''vm''], v_codec = ''hevc'', v_width = 1280,
          v_height = 720, v_quality = 64\<rparr>), selected_audio = None,
        output_exists = True, video_written_size = 0, video_size = Some 25,
        audio_written_size = 0, audio_size = None, cpu_count = Some 4\<rparr>
      \<lparr>subtitles = [\<lparr>sub_lines = [''hi''], sub_lang = ''en''\<rparr>],
        danmaku = \<lparr>dm_data = [''d''], dm_save_type = ''ass''\<rparr>, metadata = Some ''nfo'',
        output_dir = ''out'', tmp_dir = ''tmp'', filename = ''ep''\<rparr>
      \<lparr>require_video = True, require_audio = True, video_save_codec = ''hevc'',
        audio_save_codec = ''copy'', output_format = ''infer'',
        output_format_audio_only = ''infer'', overwrite = False, block_size = Some 10,
        num_workers = 8\<rparr>) = Skipped
   \<and> trace (start_downloader
      \<lparr>selected_video = (Some \<lparr>v_url = ''vu'', v_mirrors = [''vm''], v_codec = ''hevc'', v_width = 1280,
          v_height = 720, v_quality = 64\<rparr>), selected_audio = None,
        output_exists = True, video_written_size = 0, video_size = Some 25,
        audio_written_size = 0, audio_size = None, cpu_count = Some 4\<rparr>
      \<lparr>subtitles = [\<lparr>sub_lines = [''hi''], sub_lang = ''en''\<rparr>],
        danmaku = \<lparr>dm_data = [''d''], dm_save_type = ''ass''\<rparr>, metadata = Some ''nfo'',
        output_dir = ''out'', tmp_dir = ''tmp'', filename = ''ep''\<rparr>
      \<lparr>require_video = True, require_audio = True, video_save_codec = ''hevc'',
        audio_save_codec = ''copy'', output_format = ''infer'',
        output_format_audio_only = ''infer'', overwrite = False, block_size = Some 10,
        num_workers = 8\<rparr>) =
       [Mkdir (Path ''tmp''), Mkdir (Path ''out''),
        WriteSubtitle [''hi''] (Joinpath (Path ''out'') ''ep.mp4'') ''en'',
        WriteDanmaku \<lparr>dm_data = [''d''], dm_save_type = ''ass''\<rparr> ''out/ep.mp4'' 720 1280,
        WriteMetadata ''nfo'' (Joinpath (Path ''out'') ''ep.mp4''),
        Exists (Joinpath (Path ''out'') ''ep.mp4'')]
   \<and> result (start_downloader
      \<lparr>selected_video = (Some \<lparr>v_url = ''vu'', v_mirrors = [''vm''], v_codec = ''hevc'', v_width = 1280,
          v_height = 720, v_quality = 64\<rparr>), selected_audio = None,
        output_exists = True, video_written_size = 0, video_size = Some 25,
        audio_written_size = 0, audio_size = None, cpu_count = Some 4\<rparr>
      \<lparr>subtitles = [\<lparr>sub_lines = [''hi''], sub_lang = ''en''\<rparr>],
        danmaku = \<lparr>dm_data = [''d''], dm_save_type = ''ass''\<rparr>, metadata = Some ''nfo'',
        output_dir = ''out'', tmp_dir = ''tmp'', filename = ''ep''\<rparr>
      \<lparr>require_video = True, require_audio = True, video_save_codec = ''hevc'',
        audio_save_codec = ''copy'', output_format = ''infer'',
        output_format_audio_only = ''infer'', overwrite = True, block_size = Some 10,
        num_workers = 8\<rparr>) = Done
   \<and> trace (start_downloader
      \<lparr>selected_video = (Some \<lparr>v_url = ''vu'', v_mirrors = [''vm''], v_codec = ''hevc'', v_width = 1280,
          v_height = 720, v_quality = 64\<rparr>), selected_audio = None,
        output_exists = True, video_written_size = 0, video_size = Some 25,
        audio_written_size = 0, audio_size = None, cpu_count = Some 4\<rparr>
      \<lparr>subtitles = [\<lparr>sub_lines = [''hi''], sub_lang = ''en''\<rparr>],
        danmaku = \<lparr>dm_data = [''d''], dm_save_type = ''ass''\<rparr>, metadata = Some ''nfo'',
        output_dir = ''out'', tmp_dir = ''tmp'', filename = ''ep''\<rparr>
      \<lparr>require_video = True, require_audio = True, video_save_codec = ''hevc'',
        audio_save_codec = ''copy'', output_format = ''infer'',
        output_format_audio_only = ''infer'', overwrite = True, block_size = Some 10,
        num_workers = 8\<rparr>) =
       [Mkdir (Path ''tmp''), Mkdir (Path ''out''),
        WriteSubtitle [''hi''] (Joinpath (Path ''out'') ''ep.mp4'') ''en'',
        WriteDanmaku \<lparr>dm_data = [''d''], dm_save_type = ''ass''\<rparr> ''out/ep.mp4'' 720 1280,
        WriteMetadata ''nfo'' (Joinpath (Path ''out'') ''ep.mp4''),
        Exists (Joinpath (Path ''out'') ''ep.mp4''),
        Unlink (Joinpath (Path ''out'') ''ep.mp4''), SetSemaphore 8,
        OpenBuffer (Joinpath (Path ''tmp'') ''ep_video.m4s'') True, GetSize ''vu'',
        Gather [[DownloadFile ''vu'' [''vm''] (Joinpath (Path ''tmp'') ''ep_video.m4s'') 0 (Some 10),
                 DownloadFile ''vu'' [''vm''] (Joinpath (Path ''tmp'') ''ep_video.m4s'') 10 (Some 10),
                 DownloadFile ''vu'' [''vm''] (Joinpath (Path ''tmp'') ''ep_video.m4s'') 20 (Some 5)]],
        CloseBuffer (Joinpath (Path ''tmp'') ''ep_video.m4s''),
        FFmpegExec [''-i'', ''tmp/ep_video.m4s'', ''-vcodec'', ''copy'', ''-strict'', ''unofficial'',
          ''-tag:v'', ''hvc1'', ''-threads'', ''4'', ''-y'', ''out/ep.mp4''],
        Unlink (Joinpath (Path ''tmp'') ''ep_video.m4s'')]"
  using start_downloader_existing_output [of
      "\<lparr>selected_video = (Some \<lparr>v_url = ''vu'', v_mirrors = [''vm''], v_codec = ''hevc'', v_width = 1280,
          v_height = 720, v_quality = 64\<rparr>), selected_audio = None,
        output_exists = True, video_written_size = 0, video_size = Some 25,
        audio_written_size = 0, audio_size = None, cpu_count = Some 4\<rparr>"
      "\<lparr>require_video = True, require_audio = True, video_save_codec = ''hevc'',
        audio_save_codec = ''copy'', output_format = ''infer'',
        output_format_audio_only = ''infer'', overwrite = False, block_size = Some 10,
        num_workers = 8\<rparr>"
      "\<lparr>subtitles = [\<lparr>sub_lines = [''hi''], sub_lang = ''en''\<rparr>],
        danmaku = \<lparr>dm_data = [''d''], dm_save_type = ''ass''\<rparr>, metadata = Some ''nfo'',
        output_dir = ''out'', tmp_dir = ''tmp'', filename = ''ep''\<rparr>"]
    start_downloader_existing_output [of
      "\<lparr>selected_video = (Some \<lparr>v_url = ''vu'', v_mirrors = [''vm''], v_codec = ''hevc'', v_width = 1280,
          v_height = 720, v_quality = 64\<rparr>), selected_audio = None,
        output_exists = True, video_written_size = 0, video_size = Some 25,
        audio_written_size = 0, audio_size = None, cpu_count = Some 4\<rparr>"
      "\<lparr>require_video = True, require_audio = True, video_save_codec = ''hevc'',
        audio_save_codec = ''copy'', output_format = ''infer'',
        output_format_audio_only = ''infer'', overwrite = True, block_size = Some 10,
        num_workers = 8\<rparr>"
      "\<lparr>subtitles = [\<lparr>sub_lines = [''hi''], sub_lang = ''en''\<rparr>],
        danmaku = \<lparr>dm_data = [''d''], dm_save_type = ''ass''\<rparr>, metadata = Some ''nfo'',
        output_dir = ''out'', tmp_dir = ''tmp'', filename = ''ep''\<rparr>"]
  by (simp add: start_downloader_def Let_def video_path_of_def audio_path_of_def output_path_of_def
        output_format_of_def ancillary_writes_def will_download_video_def
        will_download_audio_def download_video_and_audio_def stream_fetches_def
        slice_blocks_def set_last_def py_range.simps merge_video_and_audio_def
        merge_vtag_def merge_options_def str_cpu_count_def str_nat.simps digit_char_def)

text \<open>
  Claim C10. In every run the trace begins with the two \<open>mkdir\<close> calls and then the
  ancillary writes: one \<open>write_subtitle\<close> per subtitle, \<open>write_danmaku\<close> when the
  danmaku data is not empty, \<open>write_metadata\<close> when there is metadata. Only then comes
  the check whether the output file exists, and no ancillary write follows it. A run
  that ends as \<open>Skipped\<close> has nothing after the check, and a run that ends as
  \<open>NothingToDo\<close> has at most the deletion of the output file: both have written the
  ancillary files.
\<close>

theorem start_downloader_ancillary_first:
  "\<exists>rest.
      trace (start_downloader w ep options) =
        [Mkdir (Path (tmp_dir ep)), Mkdir (Path (output_dir ep))]
        @ map (\<lambda>s. WriteSubtitle (sub_lines s) (output_path_of w ep options) (sub_lang s))
            (subtitles ep)
        @ (if dm_data (danmaku ep) \<noteq> []
           then [WriteDanmaku (danmaku ep) (str_path (output_path_of w ep options))
                   (case selected_video w of None \<Rightarrow> 1080 | Some v \<Rightarrow> v_height v)
                   (case selected_video w of None \<Rightarrow> 1920 | Some v \<Rightarrow> v_width v)]
           else [])
        @ (case metadata ep of None \<Rightarrow> []
           | Some m \<Rightarrow> [WriteMetadata m (output_path_of w ep options)])
        @ [Exists (output_path_of w ep options)] @ rest
    \<and> filter is_ancillary rest = []
    \<and> (result (start_downloader w ep options) = Skipped \<longrightarrow> rest = [])
    \<and> (result (start_downloader w ep options) = NothingToDo \<longrightarrow>
          rest = (if output_exists w then [Unlink (output_path_of w ep options)] else []))"
  using start_downloader_trace [of w ep options]
  by (simp add: ancillary_writes_def)

theorem start_downloader_ancillary_first_witness:
  "result (start_downloader
      \<lparr>selected_video = (Some \<lparr>v_url = ''vu'', v_mirrors = [''vm''], v_codec = ''hevc'', v_width = 1280,
          v_height = 720, v_quality = 64\<rparr>), selected_audio = (Some \<lparr>a_url = ''au'', a_mirrors = [], a_codec = ''fLaC'', a_quality = 30251\<rparr>),
        output_exists = True, video_written_size = 0, video_size = Some 25,
        audio_written_size = 0, audio_size = None, cpu_count = Some 4\<rparr>
      \<lparr>subtitles = [\<lparr>sub_lines = [''hi''], sub_lang = ''en''\<rparr>],
        danmaku = \<lparr>dm_data = [''d''], dm_save_type = ''ass''\<rparr>, metadata = Some ''nfo'',
        output_dir = ''out'', tmp_dir = ''tmp'', filename = ''ep''\<rparr>
      \<lparr>require_video = True, require_audio = True, video_save_codec = ''hevc'',
        audio_save_codec = ''copy'', output_format = ''infer'',
        output_format_audio_only = ''infer'', overwrite = False, block_size = Some 10,
        num_workers = 8\<rparr>) = Skipped
   \<and> trace (start_downloader
      \<lparr>selected_video = (Some \<lparr>v_url = ''vu'', v_mirrors = [''vm''], v_codec = ''hevc'', v_width = 1280,
          v_height = 720, v_quality = 64\<rparr>), selected_audio = (Some \<lparr>a_url = ''au'', a_mirrors = [], a_codec = ''fLaC'', a_quality = 30251\<rparr>),
        output_exists = True, video_written_size = 0, video_size = Some 25,
        audio_written_size = 0, audio_size = None, cpu_count = Some 4\<rparr>
      \<lparr>subtitles = [\<lparr>sub_lines = [''hi''], sub_lang = ''en''\<rparr>],
        danmaku = \<lparr>dm_data = [''d''], dm_save_type = ''ass''\<rparr>, metadata = Some ''nfo'',
        output_dir = ''out'', tmp_dir = ''tmp'', filename = ''ep''\<rparr>
      \<lparr>require_video = True, require_audio = True, video_save_codec = ''hevc'',
        audio_save_codec = ''copy'', output_format = ''infer'',
        output_format_audio_only = ''infer'', overwrite = False, block_size = Some 10,
        num_workers = 8\<rparr>) =
       [Mkdir (Path ''tmp''), Mkdir (Path ''out''),
        WriteSubtitle [''hi''] (Joinpath (Path ''out'') ''ep.mkv'') ''en'',
        WriteDanmaku \<lparr>dm_data = [''d''], dm_save_type = ''ass''\<rparr> ''out/ep.mkv'' 720 1280,
        WriteMetadata ''nfo'' (Joinpath (Path ''out'') ''ep.mkv''),
        Exists (Joinpath (Path ''out'') ''ep.mkv'')]
   \<and> result (start_downloader
      \<lparr>selected_video = None, selected_audio = None,
        output_exists = False, video_written_size = 0, video_size = Some 25,
        audio_written_size = 0, audio_size = None, cpu_count = Some 4\<rparr>
      \<lparr>subtitles = [\<lparr>sub_lines = [''hi''], sub_lang = ''en''\<rparr>],
        danmaku = \<lparr>dm_data = [''d''], dm_save_type = ''ass''\<rparr>, metadata = Some ''nfo'',
        output_dir = ''out'', tmp_dir = ''tmp'', filename = ''ep''\<rparr>
      \<lparr>require_video = True, require_audio = True, video_save_codec = ''hevc'',
        audio_save_codec = ''copy'', output_format = ''infer'',
        output_format_audio_only = ''infer'', overwrite = False, block_size = Some 10,
        num_workers = 8\<rparr>) = NothingToDo
   \<and> trace (start_downloader
      \<lparr>selected_video = None, selected_audio = None,
        output_exists = False, video_written_size = 0, video_size = Some 25,
        audio_written_size = 0, audio_size = None, cpu_count = Some 4\<rparr>
      \<lparr>subtitles = [\<lparr>sub_lines = [''hi''], sub_lang = ''en''\<rparr>],
        danmaku = \<lparr>dm_data = [''d''], dm_save_type = ''ass''\<rparr>, metadata = Some ''nfo'',
        output_dir = ''out'', tmp_dir = ''tmp'', filename = ''ep''\<rparr>
      \<lparr>require_video = True, require_audio = True, video_save_codec = ''hevc'',
        audio_save_codec = ''copy'', output_format = ''infer'',
        output_format_audio_only = ''infer'', overwrite = False, block_size = Some 10,
        num_workers = 8\<rparr>) =
       [Mkdir (Path ''tmp''), Mkdir (Path ''out''),
        WriteSubtitle [''hi''] (Joinpath (Path ''out'') ''ep.aac'') ''en'',
        WriteDanmaku \<lparr>dm_data = [''d''], dm_save_type = ''ass''\<rparr> ''out/ep.aac'' 1080 1920,
        WriteMetadata ''nfo'' (Joinpath (Path ''out'') ''ep.aac''),
        Exists (Joinpath (Path ''out'') ''ep.aac'')]"
  using start_downloader_ancillary_first [of
      "\<lparr>selected_video = (Some \<lparr>v_url = ''vu'', v_mirrors = [''vm''], v_codec = ''hevc'', v_width = 1280,
          v_height = 720, v_quality = 64\<rparr>), selected_audio = (Some \<lparr>a_url = ''au'', a_mirrors = [], a_codec = ''fLaC'', a_quality = 30251\<rparr>),
        output_exists = True, video_written_size = 0, video_size = Some 25,
        audio_written_size = 0, audio_size = None, cpu_count = Some 4\<rparr>"
      "\<lparr>subtitles = [\<lparr>sub_lines = [''hi''], sub_lang = ''en''\<rparr>],
        danmaku = \<lparr>dm_data = [''d''], dm_save_type = ''ass''\<rparr>, metadata = Some ''nfo'',
        output_dir = ''out'', tmp_dir = ''tmp'', filename = ''ep''\<rparr>"
      "\<lparr>require_video = True, require_audio = True, video_save_codec = ''hevc'',
        audio_save_codec = ''copy'', output_format = ''infer'',
        output_format_audio_only = ''infer'', overwrite = False, block_size = Some 10,
        num_workers = 8\<rparr>"]
    start_downloader_ancillary_first [of
      "\<lparr>selected_video = None, selected_audio = None,
        output_exists = False, video_written_size = 0, video_size = Some 25,
        audio_written_size = 0, audio_size = None, cpu_count = Some 4\<rparr>"
      "\<lparr>subtitles = [\<lparr>sub_lines = [''hi''], sub_lang = ''en''\<rparr>],
        danmaku = \<lparr>dm_data = [''d''], dm_save_type = ''ass''\<rparr>, metadata = Some ''nfo'',
        output_dir = ''out'', tmp_dir = ''tmp'', filename = ''ep''\<rparr>"
      "\<lparr>require_video = True, require_audio = True, video_save_codec = ''hevc'',
        audio_save_codec = ''copy'', output_format = ''infer'',
        output_format_audio_only = ''infer'', overwrite = False, block_size = Some 10,
        num_workers = 8\<rparr>"]
  by (simp add: start_downloader_def Let_def video_path_of_def audio_path_of_def output_path_of_def
        output_format_of_def ancillary_writes_def will_download_video_def
        will_download_audio_def download_video_and_audio_def stream_fetches_def
        slice_blocks_def set_last_def py_range.simps merge_video_and_audio_def
        merge_vtag_def merge_options_def str_cpu_count_def str_nat.simps digit_char_def)

end
